theory Spec2Isabelle
  imports Complex_Main "HOL-Library.AList" "HOL-Library.Log_Nat"
begin

section \<open>Python strings\<close>

text \<open>
  Strings are lists of 8-bit characters, and the model is that of Python on ASCII text:
  \<open>str.lower\<close> and \<open>str.upper\<close> change the ASCII letters (every other character is
  left as it is), \<open>str.strip\<close> removes the ASCII whitespace characters (the space,
  0x09 to 0x0D and 0x1C to 0x1F), and \<open>p in s\<close> is the contiguous-substring test.
\<close>

definition lower_char :: "char \<Rightarrow> char" where
  "lower_char c =
     (case map_of (zip ''ABCDEFGHIJKLMNOPQRSTUVWXYZ'' ''abcdefghijklmnopqrstuvwxyz'') c of
        Some d \<Rightarrow> d | None \<Rightarrow> c)"

definition upper_char :: "char \<Rightarrow> char" where
  "upper_char c =
     (case map_of (zip ''abcdefghijklmnopqrstuvwxyz'' ''ABCDEFGHIJKLMNOPQRSTUVWXYZ'') c of
        Some d \<Rightarrow> d | None \<Rightarrow> c)"

definition py_lower :: "string \<Rightarrow> string" where
  "py_lower s = map lower_char s"

definition py_upper :: "string \<Rightarrow> string" where
  "py_upper s = map upper_char s"

definition is_space :: "char \<Rightarrow> bool" where
  "is_space c = (c \<in> set [CHR '' '', CHR 0x09, CHR 0x0A, CHR 0x0B, CHR 0x0C, CHR 0x0D,
                           CHR 0x1C, CHR 0x1D, CHR 0x1E, CHR 0x1F])"

definition py_strip :: "string \<Rightarrow> string" where
  "py_strip s = rev (dropWhile is_space (rev (dropWhile is_space s)))"

definition startswith :: "string \<Rightarrow> string \<Rightarrow> bool" where
  "startswith s p = (take (length p) s = p)"

definition endswith :: "string \<Rightarrow> string \<Rightarrow> bool" where
  "endswith s p = startswith (rev s) (rev p)"

text \<open>\<open>py_in p s\<close> is Python's \<open>p in s\<close> on strings.\<close>

fun py_in :: "string \<Rightarrow> string \<Rightarrow> bool" where
  "py_in p [] = (p = [])"
| "py_in p (c # cs) = (startswith (c # cs) p \<or> py_in p cs)"

text \<open>Decimal rendering of a non-negative integer, as an f-string prints it.\<close>

definition digit_char :: "nat \<Rightarrow> char" where
  "digit_char d = ''0123456789'' ! d"

fun show_nat :: "nat \<Rightarrow> string" where
  "show_nat n = (if n < 10 then [digit_char n] else show_nat (n div 10) @ [digit_char (n mod 10)])"

declare show_nat.simps [simp del]

section \<open>Rule-set documents\<close>

text \<open>
  A JSON value in the position of a section weight: \<open>JNum r\<close> is a float of value
  \<open>r\<close>, \<open>JInt i\<close> an integer. Python's \<open>isinstance(w, (int, float))\<close> accepts
  both, and the booleans (\<open>bool\<close> is a subclass of \<open>int\<close>). \<open>num_of\<close> is the value
  of a number. The literals \<open>NaN\<close> and \<open>Infinity\<close>, which are not JSON, are outside the
  model.
\<close>

datatype jval = JNum rat | JInt int | JBool bool | JStr string | JNull | JOther

fun num_of :: "jval \<Rightarrow> rat option" where
  "num_of (JNum r) = Some r"
| "num_of (JInt i) = Some (of_int i)"
| "num_of (JBool b) = Some (if b then 1 else 0)"
| "num_of _ = None"

text \<open>
  The two question shapes: a plain string, or a record with an optional id, a text, the
  options and an optional \<open>recommendations\<close> dict (response text to recommendation).
\<close>

datatype question =
    PlainText string
  | Detailed "string option" string "string list" "(string \<times> string) list option"

text \<open>
  A section is a JSON object: \<open>name\<close>, \<open>weight\<close> and \<open>index\<close> may be absent
  (\<open>None\<close>). The \<open>questions\<close> entry is taken to be present; it may be empty.
\<close>

record section_rec =
  name :: "string option"
  weight :: "jval option"
  index :: "nat option"
  questions :: "question list"

text \<open>
  The answer-points table is a dict in insertion order: an association list whose values
  are a number or \<open>None\<close> (JSON \<open>null\<close>, excluded from scoring).
  \<open>k in d\<close> is \<open>map_of d k \<noteq> None\<close>, \<open>d[k] = v\<close> is \<open>AList.update k v d\<close>.
\<close>

type_synonym answer_points = "(string \<times> rat option) list"

record questionnaire =
  sections :: "section_rec list option"
  answer_points :: "answer_points option"

text \<open>The response map: key \<open>s{i}_q{j}\<close> to a response text or \<open>None\<close>.\<close>

type_synonym responses = "string \<rightharpoonup> string option"

definition response_key :: "nat \<Rightarrow> nat \<Rightarrow> string" where
  "response_key s_idx q_idx = ''s'' @ show_nat s_idx @ ''_q'' @ show_nat q_idx"

datatype py_error = TypeError | KeyError | AttributeError | OverflowError | ZeroDivisionError

section \<open>Known scoring issues (assessment.py, fix_known_scoring_issues)\<close>

definition notices_key :: string where
  "notices_key = ''Notices are provided in English and all 22 official Indian languages listed in the Eighth Schedule of the Constitution.''"

definition fix_known_scoring_issues :: "answer_points \<Rightarrow> answer_points" where
  "fix_known_scoring_issues ap =
     (if map_of ap notices_key = Some (Some 0)
      then AList.update notices_key (Some 1) ap
      else ap)"

section \<open>The standalone section scorer (assessment.py, calculate_section_score)\<close>

text \<open>
  Lines 277-304: the point of one non-empty response. The first component is the value of
  the variable \<open>point\<close> after the matching chain (\<open>None\<close> is Python's \<open>None\<close>: the
  response is not counted), the second the responses passed to the
  "Unable to determine points" \<open>logger.warning\<close>.
\<close>

definition heuristic_point :: "string \<Rightarrow> rat option \<times> string list" where
  "heuristic_point response =
     (let response_lower = py_lower response in
      if py_in ''yes'' response_lower \<or> py_in ''successfully completed'' response_lower
        then (Some 1, [])
      else if py_in ''no'' response_lower \<or> py_in ''not yet completed'' response_lower
        then (Some 0, [])
      else if py_in ''partial'' response_lower \<or> py_in ''needs improvement'' response_lower
        then (Some (1 / 2), [])
      else if py_in ''not applicable'' response_lower
        then (None, [])
      else (None, [response]))"

text \<open>The loop of lines 283-287: the first table entry whose lowercased key is the
  lowercased response; its value may be \<open>None\<close>.\<close>

definition case_insensitive_point :: "answer_points \<Rightarrow> string \<Rightarrow> rat option" where
  "case_insensitive_point ap response =
     (case find (\<lambda>(answer, points). py_lower answer = py_lower response) ap of
        Some (answer, points) \<Rightarrow> points
      | None \<Rightarrow> None)"

definition resolve_point :: "answer_points \<Rightarrow> string \<Rightarrow> rat option \<times> string list" where
  "resolve_point ap response =
     (case map_of ap response of
        Some point \<Rightarrow> (point, [])
      | None \<Rightarrow>
          (case case_insensitive_point ap response of
             Some point \<Rightarrow> (Some point, [])
           | None \<Rightarrow> heuristic_point response))"

record score_acc =
  total_score :: rat
  applicable_questions :: nat
  unresolved_log :: "string list"

text \<open>One iteration of the loop over the questions (lines 265-309).\<close>

definition score_question :: "answer_points \<Rightarrow> responses \<Rightarrow> nat \<Rightarrow> score_acc \<Rightarrow> nat \<Rightarrow> score_acc" where
  "score_question ap rs section_idx acc q_idx =
     (case rs (response_key section_idx q_idx) of
        None \<Rightarrow> acc
      | Some None \<Rightarrow> acc
      | Some (Some response) \<Rightarrow>
          if response = [] then acc
          else
            (case resolve_point ap response of
               (None, w) \<Rightarrow> acc\<lparr>unresolved_log := unresolved_log acc @ w\<rparr>
             | (Some point, w) \<Rightarrow>
                 \<lparr>total_score = total_score acc + point,
                  applicable_questions = applicable_questions acc + 1,
                  unresolved_log = unresolved_log acc @ w\<rparr>))"

definition score_questions :: "answer_points \<Rightarrow> responses \<Rightarrow> section_rec \<Rightarrow> score_acc" where
  "score_questions ap rs section =
     foldl (score_question ap rs (case index section of Some i \<Rightarrow> i | None \<Rightarrow> 0))
       \<lparr>total_score = 0, applicable_questions = 0, unresolved_log = []\<rparr>
       [0..<length (questions section)]"

definition calculate_section_score :: "section_rec \<Rightarrow> responses \<Rightarrow> answer_points \<Rightarrow> rat option" where
  "calculate_section_score section rs ap =
     (if questions section = [] then None
      else
        (let acc = score_questions ap rs section in
         if applicable_questions acc = 0 then None
         else Some (total_score acc / of_nat (applicable_questions acc))))"

section \<open>The correction pass (assessment.py, verify_section_score)\<close>

definition full_compliance_patterns :: "string list" where
  "full_compliance_patterns =
     [''yes, with'', ''notices are provided in english and all'', ''comprehensive'', ''robust'',
      ''full'', ''strict adherence'', ''established procedures'', ''clear verification'',
      ''dedicated'']"

definition should_have_perfect_score :: "string \<Rightarrow> string option list \<Rightarrow> bool" where
  "should_have_perfect_score section_name section_responses =
     (if section_responses = [] \<or> list_ex (\<lambda>r. r = None) section_responses then False
      else
        length (filter (\<lambda>r. case r of
                   None \<Rightarrow> False
                 | Some response \<Rightarrow>
                     list_ex (\<lambda>pattern. py_in pattern (py_lower response)) full_compliance_patterns)
                 section_responses)
          = length section_responses)"

text \<open>\<open>answer_points.get(response, 0.0)\<close> for the responses that are neither \<open>None\<close> nor
  empty (line 765).\<close>

definition response_points :: "answer_points \<Rightarrow> string option list \<Rightarrow> rat option list" where
  "response_points ap section_responses =
     map (\<lambda>response. case map_of ap response of None \<Rightarrow> Some 0 | Some v \<Rightarrow> v)
       (filter (\<lambda>response. response \<noteq> []) (List.map_filter id section_responses))"

text \<open>
  With a non-empty response list and \<open>raw_score = None\<close>, the comparison
  \<open>raw_score < 1.0\<close> of line 763 (or of line 771) raises \<open>TypeError\<close>.
\<close>

definition verify_section_score ::
    "string \<Rightarrow> rat option \<Rightarrow> string option list \<Rightarrow> answer_points \<Rightarrow> py_error + rat" where
  "verify_section_score section_name raw_score section_responses ap =
     (if section_responses = [] then Inr (case raw_score of Some r \<Rightarrow> r | None \<Rightarrow> 0)
      else
        (case raw_score of
           None \<Rightarrow> Inl TypeError
         | Some r \<Rightarrow>
             if section_name = ''Data Collection and Processing'' \<and> r < 1
                \<and> list_all (\<lambda>point. point = Some 1) (response_points ap section_responses)
                \<and> response_points ap section_responses \<noteq> []
               then Inr 1
             else if r < 1 \<and> should_have_perfect_score section_name section_responses
               then Inr 1
             else if 95 / 100 \<le> r \<and> r < 1
               then Inr 1
             else Inr r))"

section \<open>Scoring inside calculate_compliance_score (assessment.py, lines 464-657)\<close>

text \<open>
  The responses are those of the session state, taken to be present (without them the
  function returns its zero result at line 431). The result cache at the head of the
  function and the log messages are not modelled; of the risk areas, recommendations and
  priorities computed after the overall score, only the exceptions they can raise are.
\<close>

definition default_answer_points :: answer_points where
  "default_answer_points =
     [(''Yes - Successfully completed'', Some 1),
      (''Yes, with comprehensive documentation'', Some 1),
      (''Yes, with full documentation'', Some 1),
      (''Yes'', Some 1),
      (''Partially completed'', Some (1 / 2)),
      (''In progress'', Some (1 / 2)),
      (''Partially, but training needs improvement'', Some (1 / 2)),
      (''Partially, but the process needs improvement'', Some (1 / 2)),
      (''No - Not yet completed'', Some 0),
      (''No - Not Applicable'', None),
      (''No'', Some 0),
      (''Not applicable'', None)]"

text \<open>Lines 465-490: the table of the questionnaire, or the default one when it is
  absent or empty, after the fix of the known scoring issues.\<close>

definition scoring_answer_points :: "questionnaire \<Rightarrow> answer_points" where
  "scoring_answer_points q =
     fix_known_scoring_issues
       (case answer_points q of
          None \<Rightarrow> default_answer_points
        | Some ap \<Rightarrow> if ap = [] then default_answer_points else ap)"

text \<open>\<open>section.get('name', f'Section {s_idx+1}')\<close>.\<close>

definition section_name_of :: "nat \<Rightarrow> section_rec \<Rightarrow> string" where
  "section_name_of s_idx section =
     (case name section of
        Some n \<Rightarrow> n
      | None \<Rightarrow> ''Section '' @ show_nat (s_idx + 1))"

text \<open>Lines 557-563: the value of \<open>points\<close> after the partial-match loop, which starts
  at 0.0 and takes the value of the first table entry whose non-empty lowercased key
  occurs in the lowercased response.\<close>

definition partial_match_points :: "answer_points \<Rightarrow> string \<Rightarrow> rat option" where
  "partial_match_points ap response =
     (case find (\<lambda>(key, value). key \<noteq> [] \<and> response \<noteq> []
                    \<and> py_in (py_lower key) (py_lower response)) ap of
        Some (key, value) \<Rightarrow> value
      | None \<Rightarrow> Some 0)"

record section_acc =
  total_points :: rat
  section_responses :: "string list"
  no_points_log :: "string list"

text \<open>
  One iteration of the loop over the questions (lines 539-573). \<open>total_points\<close> grows
  only under \<open>answer_points.get(response) is not None\<close>, that is when the response is a
  key of the table with a number as its value; \<open>no_points_log\<close> holds the responses of
  the "No points assigned" warning.
\<close>

definition collect_response ::
    "answer_points \<Rightarrow> responses \<Rightarrow> nat \<Rightarrow> section_acc \<Rightarrow> nat \<Rightarrow> section_acc" where
  "collect_response ap rs s_idx acc q_idx =
     (case rs (response_key s_idx q_idx) of
        None \<Rightarrow> acc
      | Some None \<Rightarrow> acc
      | Some (Some response) \<Rightarrow>
          (case map_of ap response of
             Some (Some points) \<Rightarrow>
               acc\<lparr>total_points := total_points acc + points,
                   section_responses := section_responses acc @ [response]\<rparr>
           | Some None \<Rightarrow>
               acc\<lparr>section_responses := section_responses acc @ [response]\<rparr>
           | None \<Rightarrow>
               acc\<lparr>section_responses := section_responses acc @ [response],
                   no_points_log := no_points_log acc @
                     (if partial_match_points ap response = Some 0 \<and> response \<noteq> []
                      then [response] else [])\<rparr>))"

definition collect_section :: "answer_points \<Rightarrow> responses \<Rightarrow> nat \<Rightarrow> section_rec \<Rightarrow> section_acc" where
  "collect_section ap rs s_idx section =
     foldl (collect_response ap rs s_idx)
       \<lparr>total_points = 0, section_responses = [], no_points_log = []\<rparr>
       [0..<length (questions section)]"

text \<open>Lines 575-578: \<open>raw_score = total_points / max_points\<close>, where \<open>max_points\<close> is
  the number of questions of the section.\<close>

definition raw_section_score :: "answer_points \<Rightarrow> responses \<Rightarrow> nat \<Rightarrow> section_rec \<Rightarrow> rat option" where
  "raw_section_score ap rs s_idx section =
     (let max_points = length (questions section);
          acc = collect_section ap rs s_idx section
      in if 0 < max_points \<and> section_responses acc \<noteq> []
         then Some (total_points acc / of_nat max_points)
         else None)"

text \<open>
  Lines 580-608: the value stored in \<open>section_scores\<close> for the section. An exception in
  the body is caught and stores \<open>None\<close>.
\<close>

definition stored_section_score :: "answer_points \<Rightarrow> responses \<Rightarrow> nat \<Rightarrow> section_rec \<Rightarrow> rat option" where
  "stored_section_score ap rs s_idx section =
     (let acc = collect_section ap rs s_idx section in
      case verify_section_score (section_name_of s_idx section)
             (raw_section_score ap rs s_idx section)
             (map Some (section_responses acc)) ap of
        Inl e \<Rightarrow> None
      | Inr verified_score \<Rightarrow>
          if section_responses acc \<noteq> [] then Some verified_score else None)"

text \<open>The dict \<open>section_scores\<close>, in insertion order, keyed by section name: a later
  section with the same name overwrites the entry of an earlier one.\<close>

definition section_scores ::
    "answer_points \<Rightarrow> responses \<Rightarrow> section_rec list \<Rightarrow> (string \<times> rat option) list" where
  "section_scores ap rs secs =
     foldl (\<lambda>scores (s_idx, section).
              AList.update (section_name_of s_idx section)
                (stored_section_score ap rs s_idx section) scores)
       [] (enumerate 0 secs)"

text \<open>
  One iteration of the loop of lines 635-646, on \<open>(total_weighted_score, total_weight)\<close>.
  The weight defaults to \<open>1.0 / len(sections)\<close>; multiplying the score by a weight
  that is not a number raises \<open>TypeError\<close>, which nothing catches.
\<close>

definition add_weighted ::
    "(string \<rightharpoonup> rat option) \<Rightarrow> nat \<Rightarrow> py_error + rat \<times> rat \<Rightarrow> nat \<times> section_rec
      \<Rightarrow> py_error + rat \<times> rat" where
  "add_weighted scores n acc p =
     (case acc of
        Inl e \<Rightarrow> Inl e
      | Inr (total_weighted_score, total_weight) \<Rightarrow>
          (case scores (section_name_of (fst p) (snd p)) of
             Some (Some section_score) \<Rightarrow>
               (case num_of (case weight (snd p) of
                               None \<Rightarrow> JNum (1 / of_nat n)
                             | Some w \<Rightarrow> w) of
                  None \<Rightarrow> Inl TypeError
                | Some section_weight \<Rightarrow>
                    Inr (total_weighted_score + section_score * section_weight,
                         total_weight + section_weight))
           | _ \<Rightarrow> Inr (total_weighted_score, total_weight)))"

definition weighted_totals ::
    "(string \<rightharpoonup> rat option) \<Rightarrow> nat \<Rightarrow> (nat \<times> section_rec) list \<Rightarrow> py_error + rat \<times> rat" where
  "weighted_totals scores n ps = foldl (add_weighted scores n) (Inr (0, 0)) ps"

definition percentage :: "py_error + rat \<times> rat \<Rightarrow> py_error + rat" where
  "percentage totals =
     (case totals of
        Inl e \<Rightarrow> Inl e
      | Inr (total_weighted_score, total_weight) \<Rightarrow>
          Inr (if 0 < total_weight then (total_weighted_score / total_weight) * 100 else 0))"

text \<open>
  The loop that collects the recommendations (lines 672-720) reads \<open>section["name"]\<close>
  without a default: a section without a name raises \<open>KeyError\<close>. For a section with a
  score, a question record whose \<open>recommendations\<close> dict is not empty, and a response that
  is present with the value \<open>None\<close>, the partial-match branch calls \<open>response.lower()\<close>,
  which raises \<open>AttributeError\<close>.
\<close>

definition question_raises :: "responses \<Rightarrow> nat \<Rightarrow> nat \<times> question \<Rightarrow> bool" where
  "question_raises rs s_idx p =
     (case rs (response_key s_idx (fst p)) of
        Some None \<Rightarrow>
          (case snd p of
             Detailed i t opts (Some recs) \<Rightarrow> recs \<noteq> []
           | _ \<Rightarrow> False)
      | _ \<Rightarrow> False)"

definition recommendation_error ::
    "responses \<Rightarrow> (string \<rightharpoonup> rat option) \<Rightarrow> nat \<times> section_rec \<Rightarrow> py_error option" where
  "recommendation_error rs scores p =
     (case name (snd p) of
        None \<Rightarrow> Some KeyError
      | Some section_name \<Rightarrow>
          (case scores section_name of
             Some (Some score) \<Rightarrow>
               if list_ex (question_raises rs (fst p)) (enumerate 0 (questions (snd p)))
               then Some AttributeError else None
           | _ \<Rightarrow> None))"

text \<open>
  The outcome of calculate_compliance_score for a questionnaire and the responses of the
  session: the exception it raises, or the \<open>overall_score\<close> and the \<open>section_scores\<close>
  of the result it returns. \<open>questionnaire["sections"]\<close> (line 443) raises \<open>KeyError\<close>
  when the entry is absent; a weight that is not a number raises in the loop of the
  weighted sum; the recommendations are collected last.
\<close>

definition calculate_compliance_score ::
    "questionnaire \<Rightarrow> responses \<Rightarrow> py_error + rat \<times> (string \<times> rat option) list" where
  "calculate_compliance_score q rs =
     (case sections q of
        None \<Rightarrow> Inl KeyError
      | Some secs \<Rightarrow>
          (let scores = section_scores (scoring_answer_points q) rs secs in
           case percentage (weighted_totals (map_of scores) (length secs) (enumerate 0 secs)) of
             Inl e \<Rightarrow> Inl e
           | Inr overall_score \<Rightarrow>
               (case List.map_filter (recommendation_error rs (map_of scores)) (enumerate 0 secs) of
                  e # es \<Rightarrow> Inl e
                | [] \<Rightarrow> Inr (overall_score, scores))))"

section \<open>Python numbers\<close>

text \<open>
  The numbers the weight repair computes with: an integer, or a finite float given by its
  value. A total is such a number or the float \<open>inf\<close>, which a sum of finite floats can
  reach.
\<close>

datatype pynum = PInt int | PFloat rat

datatype pytotal = Finite pynum | Infinity

fun value_of :: "pynum \<Rightarrow> rat" where
  "value_of (PInt i) = of_int i"
| "value_of (PFloat r) = r"

fun py_number :: "jval \<Rightarrow> pynum option" where
  "py_number (JNum r) = Some (PFloat r)"
| "py_number (JInt i) = Some (PInt i)"
| "py_number (JBool b) = Some (PInt (if b then 1 else 0))"
| "py_number _ = None"

text \<open>
  The arithmetic of the interpreter is a parameter of the repair: \<open>py_sum\<close> is the builtin
  \<open>sum\<close> over the weights and \<open>py_div\<close> the true division \<open>/\<close>, each with the
  exception it raises or the number it returns (a float, for the division). The result of
  \<open>sum\<close> on floats depends on the interpreter: CPython adds from left to right up to
  version 3.11 and compensates the rounding errors from 3.12 on.
\<close>

record arith =
  py_sum :: "pynum list \<Rightarrow> py_error + pytotal"
  py_div :: "pynum \<Rightarrow> pytotal \<Rightarrow> py_error + rat"

subsection \<open>Binary64 floats\<close>

text \<open>
  Rounding of a rational to the nearest binary64 float, ties to even: 53 significant bits,
  multiples of \<open>2 powi (- 1074)\<close> in the subnormal range, and \<open>None\<close> when the rounded
  magnitude reaches \<open>2 ^ 1024\<close> (overflow).
\<close>

text \<open>\<open>floor_log2 x\<close> is the integer \<open>e\<close> with \<open>2 powi e \<le> x < 2 powi (e + 1)\<close>, for
  \<open>x > 0\<close>; \<open>bitlen\<close> is the number of bits of a positive integer.\<close>

definition floor_log2 :: "rat \<Rightarrow> int" where
  "floor_log2 x =
     (if 1 \<le> x then bitlen \<lfloor>x\<rfloor> - 1
      else - bitlen (\<lceil>1 / x\<rceil> - 1))"

definition round_half_even :: "rat \<Rightarrow> int" where
  "round_half_even y =
     (let f = \<lfloor>y\<rfloor>; d = y - of_int f in
      if d < 1 / 2 then f
      else if 1 / 2 < d then f + 1
      else if even f then f else f + 1)"

definition round_double :: "rat \<Rightarrow> rat option" where
  "round_double x =
     (if x = 0 then Some 0
      else
        (let a = \<bar>x\<bar>;
             e = max (floor_log2 a - 52) (- 1074);
             r = of_int (round_half_even (a / 2 powi e)) * 2 powi e
         in if 2 ^ 1024 \<le> r then None else Some (sgn x * r)))"

text \<open>
  The arithmetic of CPython up to 3.11 on non-negative numbers. Integers add exactly; an
  integer that meets a float is converted first, which raises \<open>OverflowError\<close> when it is
  too large; a float sum that overflows is \<open>inf\<close>. The true division of two integers is
  rounded once and raises \<open>OverflowError\<close> when the quotient is too large for a float. A
  quotient of two floats that overflows is \<open>inf\<close> in Python and \<open>OverflowError\<close> here:
  the repair only divides a weight by a total that is at least that weight.
\<close>

definition to_float :: "pynum \<Rightarrow> py_error + rat" where
  "to_float x =
     (case x of
        PFloat r \<Rightarrow> Inr r
      | PInt i \<Rightarrow> (case round_double (of_int i) of None \<Rightarrow> Inl OverflowError | Some r \<Rightarrow> Inr r))"

definition rounded_total :: "rat \<Rightarrow> pytotal" where
  "rounded_total y = (case round_double y of None \<Rightarrow> Infinity | Some r \<Rightarrow> Finite (PFloat r))"

definition py_add :: "pytotal \<Rightarrow> pynum \<Rightarrow> py_error + pytotal" where
  "py_add acc x =
     (case acc of
        Infinity \<Rightarrow> (case to_float x of Inl e \<Rightarrow> Inl e | Inr fx \<Rightarrow> Inr Infinity)
      | Finite (PInt a) \<Rightarrow>
          (case x of
             PInt b \<Rightarrow> Inr (Finite (PInt (a + b)))
           | PFloat fx \<Rightarrow>
               (case to_float (PInt a) of Inl e \<Rightarrow> Inl e | Inr fa \<Rightarrow> Inr (rounded_total (fa + fx))))
      | Finite (PFloat fa) \<Rightarrow>
          (case to_float x of Inl e \<Rightarrow> Inl e | Inr fx \<Rightarrow> Inr (rounded_total (fa + fx))))"

definition float_div :: "rat \<Rightarrow> rat \<Rightarrow> py_error + rat" where
  "float_div a b =
     (if b = 0 then Inl ZeroDivisionError
      else (case round_double (a / b) of None \<Rightarrow> Inl OverflowError | Some r \<Rightarrow> Inr r))"

definition binary64 :: arith where
  "binary64 =
     \<lparr>py_sum = foldl (\<lambda>acc x. case acc of Inl e \<Rightarrow> Inl e | Inr t \<Rightarrow> py_add t x)
                 (Inr (Finite (PInt 0))),
      py_div = (\<lambda>w total.
         case total of
           Infinity \<Rightarrow> (case to_float w of Inl e \<Rightarrow> Inl e | Inr fw \<Rightarrow> Inr 0)
         | Finite (PInt b) \<Rightarrow>
             (case w of
                PInt a \<Rightarrow> float_div (of_int a) (of_int b)
              | PFloat fw \<Rightarrow>
                  (case to_float (PInt b) of Inl e \<Rightarrow> Inl e | Inr fb \<Rightarrow> float_div fw fb))
         | Finite (PFloat fb) \<Rightarrow>
             (case to_float w of Inl e \<Rightarrow> Inl e | Inr fw \<Rightarrow> float_div fw fb))\<rparr>"

section \<open>Weight repair (questionnaire_loader.py, fix_questionnaire_weights)\<close>

text \<open>The negation of the test of line 130: the weight is present, a number, and
  positive.\<close>

definition positive_weight :: "section_rec \<Rightarrow> bool" where
  "positive_weight s =
     (case weight s of
        None \<Rightarrow> False
      | Some w \<Rightarrow> (case num_of w of None \<Rightarrow> False | Some r \<Rightarrow> 0 < r))"

definition weight_number :: "section_rec \<Rightarrow> pynum option" where
  "weight_number s = (case weight s of None \<Rightarrow> None | Some w \<Rightarrow> py_number w)"

text \<open>The floats that the literals \<open>0.99\<close> and \<open>1.01\<close> denote.\<close>

definition float_0_99 :: rat where
  "float_0_99 = 4458563631096791 / 4503599627370496"

definition float_1_01 :: rat where
  "float_1_01 = 4548635623644201 / 4503599627370496"

text \<open>\<open>0.99 <= total_weight <= 1.01\<close>; numbers compare by their values.\<close>

definition close_to_one :: "pytotal \<Rightarrow> bool" where
  "close_to_one total_weight =
     (case total_weight of
        Infinity \<Rightarrow> False
      | Finite x \<Rightarrow> float_0_99 \<le> value_of x \<and> value_of x \<le> float_1_01)"

text \<open>The first exception of a sequence of computations, or all their results.\<close>

fun in_order :: "(py_error + 'a) list \<Rightarrow> py_error + 'a list" where
  "in_order [] = Inr []"
| "in_order (r # rs) =
     (case r of
        Inl e \<Rightarrow> Inl e
      | Inr x \<Rightarrow> (case in_order rs of Inl e \<Rightarrow> Inl e | Inr xs \<Rightarrow> Inr (x # xs)))"

text \<open>
  The first loop (lines 129-131): a weight that is missing, not a number or not positive
  becomes \<open>1.0 / section_count\<close>.
\<close>

definition equal_weights :: "arith \<Rightarrow> section_rec list \<Rightarrow> py_error + section_rec list" where
  "equal_weights ar secs =
     (if list_all positive_weight secs then Inr secs
      else
        (case py_div ar (PFloat 1) (Finite (PInt (int (length secs)))) of
           Inl e \<Rightarrow> Inl e
         | Inr d \<Rightarrow> Inr (map (\<lambda>s. if positive_weight s then s else s\<lparr>weight := Some (JNum d)\<rparr>) secs)))"

text \<open>
  The function returns \<open>None\<close> when there are no sections and when its body raises: the
  \<open>except\<close> branch. The sum inside the last log message is a sum of floats, which does not
  raise.
\<close>

definition fix_questionnaire_weights :: "arith \<Rightarrow> questionnaire \<Rightarrow> questionnaire option" where
  "fix_questionnaire_weights ar q =
     (case sections q of
        None \<Rightarrow> None
      | Some secs \<Rightarrow>
          if secs = [] then None
          else
            (case equal_weights ar secs of
               Inl e \<Rightarrow> None
             | Inr secs1 \<Rightarrow>
                 (case those (map weight_number secs1) of
                    None \<Rightarrow> None
                  | Some ws \<Rightarrow>
                      (case py_sum ar ws of
                         Inl e \<Rightarrow> None
                       | Inr total_weight \<Rightarrow>
                           if close_to_one total_weight then Some (q\<lparr>sections := Some secs1\<rparr>)
                           else
                             (case in_order (map (\<lambda>w. py_div ar w total_weight) ws) of
                                Inl e \<Rightarrow> None
                              | Inr qs \<Rightarrow>
                                  Some (q\<lparr>sections := Some
                                    (map2 (\<lambda>s w. s\<lparr>weight := Some (JNum w)\<rparr>) secs1 qs)\<rparr>))))))"

text \<open>The number a section carries after the first loop, \<open>d\<close> being the float
  \<open>1.0 / section_count\<close>.\<close>

definition repaired_weight :: "rat \<Rightarrow> section_rec \<Rightarrow> pynum" where
  "repaired_weight d s =
     (if positive_weight s
      then (case weight_number s of Some x \<Rightarrow> x | None \<Rightarrow> PFloat d)
      else PFloat d)"

section \<open>Questionnaire resolution (assessment.py, get_questionnaire)\<close>

text \<open>
  What a path of the rule-set store holds: a file that cannot be opened, one whose content
  is not a JSON object of the questionnaire shape (\<open>json.load\<close> or the first use of the
  value raises), or a questionnaire document. Files that hold valid JSON of another shape
  are outside the model.
\<close>

datatype stored_file = Unreadable | Unparsable | Doc questionnaire

text \<open>
  The environment of the resolution: the directory \<open>QUESTIONNAIRE_DIR/<regulation>\<close>
  (whether it exists, and what \<open>os.listdir\<close> returns, \<open>None\<close> when it raises), the path
  \<open>QUESTIONNAIRE_DIR/<regulation>/<file name>\<close> (\<open>None\<close> when it does not exist), and
  the \<open>locked_questionnaire_type\<close> attribute of the session state (\<open>None\<close> when unset).
  The \<open>lru_cache\<close> around the function and the clearing of the caches are not modelled:
  the function below is the body that runs on a cache miss.
\<close>

record env =
  dir_exists :: "string \<Rightarrow> bool"
  listdir :: "string \<Rightarrow> string list option"
  file_at :: "string \<Rightarrow> string \<Rightarrow> stored_file option"
  locked_questionnaire_type :: "string option"

definition fallback_options :: "string list" where
  "fallback_options =
     [''Yes, fully compliant'', ''Partially compliant'', ''No, not compliant'', ''Not applicable'']"

definition fallback_section_names :: "string \<Rightarrow> string \<Rightarrow> string list" where
  "fallback_section_names regulation_code industry_code =
     (if regulation_code = ''DPDP'' then
        (if py_lower industry_code = ''e-commerce'' then
           [''DPDP Data Collection and Processing'', ''DPDP Data Principal Rights'',
            ''DPDP Data Breach and Security'', ''DPDP Governance and Documentation'']
         else [''Data Collection and Processing'', ''Data Principal Rights''])
      else [''Data Collection'', ''Data Processing''])"

definition minimal_questionnaire :: "string list \<Rightarrow> questionnaire" where
  "minimal_questionnaire section_names =
     \<lparr>sections = Some (map (\<lambda>n.
          \<lparr>name = Some n,
           weight = Some (JNum (1 / of_nat (length section_names))),
           index = None,
           questions = [Detailed None (''Sample question for '' @ n) fallback_options None]\<rparr>)
        section_names),
      answer_points = None\<rparr>"

text \<open>
  create_fallback_questionnaire. With the questionnaire type locked to e-commerce and
  another industry requested, the industry becomes e-commerce and the file
  \<open>E-commerce.json\<close> of the regulation is returned when it exists and loads.
\<close>

definition create_fallback_questionnaire :: "env \<Rightarrow> string \<Rightarrow> string \<Rightarrow> questionnaire" where
  "create_fallback_questionnaire e regulation_code industry_code =
     (if locked_questionnaire_type e = Some ''e-commerce'' \<and> py_lower industry_code \<noteq> ''e-commerce''
      then
        (case file_at e regulation_code ''E-commerce.json'' of
           Some (Doc q) \<Rightarrow> q
         | _ \<Rightarrow> minimal_questionnaire (fallback_section_names regulation_code ''e-commerce''))
      else minimal_questionnaire (fallback_section_names regulation_code industry_code))"

text \<open>The choice of the file (lines 87-125): a file name, the early return of the
  fallback questionnaire, or an exception (from \<open>os.listdir\<close>).\<close>

datatype found = Found string | UseFallback | Raised

definition find_file :: "env \<Rightarrow> string \<Rightarrow> string \<Rightarrow> found" where
  "find_file e regulation industry =
     (if regulation = ''PDPPL'' then
        (if file_at e regulation (industry @ ''.json'') \<noteq> None then Found (industry @ ''.json'')
         else
           (case listdir e regulation of
              None \<Rightarrow> Raised
            | Some fs \<Rightarrow>
                (case filter (\<lambda>f. py_lower f = py_lower (industry @ ''.json''))
                        (filter (\<lambda>f. endswith (py_lower f) ''.json'') fs) of
                   [] \<Rightarrow> Found ''Oil_and_Gas.json''
                 | m # ms \<Rightarrow> Found m)))
      else if regulation = ''NPC'' then
        (if file_at e regulation ''npc.json'' \<noteq> None then Found ''npc.json'' else UseFallback)
      else if regulation = ''OAIC'' then
        (if file_at e regulation (industry @ ''.json'') \<noteq> None then Found (industry @ ''.json'')
         else Found ''General.json'')
      else
        (if file_at e regulation (industry @ ''.json'') \<noteq> None then Found (industry @ ''.json'')
         else Found ''Banking and finance.json''))"

definition empty_questionnaire :: questionnaire where
  "empty_questionnaire = \<lparr>sections = Some [], answer_points = None\<rparr>"

text \<open>
  Every exception in the body is caught by the \<open>except Exception\<close> of line 151, which
  returns \<open>{"sections": []}\<close>.
\<close>

definition get_questionnaire :: "env \<Rightarrow> string \<Rightarrow> string \<Rightarrow> questionnaire" where
  "get_questionnaire e regulation0 industry0 =
     (let regulation = py_upper (py_strip regulation0);
          industry = py_lower (py_strip industry0)
      in if \<not> dir_exists e regulation then create_fallback_questionnaire e regulation industry
         else
           (case find_file e regulation industry of
              UseFallback \<Rightarrow> create_fallback_questionnaire e regulation industry
            | Raised \<Rightarrow> empty_questionnaire
            | Found found_file \<Rightarrow>
                (case file_at e regulation found_file of
                   Some (Doc questionnaire) \<Rightarrow> questionnaire
                 | _ \<Rightarrow> empty_questionnaire)))"

section \<open>Example data\<close>

text \<open>A section with a name, a numeric weight and \<open>k\<close> plain-text questions.\<close>

definition plain_section :: "string \<Rightarrow> rat \<Rightarrow> nat \<Rightarrow> section_rec" where
  "plain_section n w k =
     \<lparr>name = Some n, weight = Some (JNum w), index = None,
      questions = replicate k (PlainText ''Sample question'')\<rparr>"

text \<open>
  A rule-set store with the NPC document \<open>NPC/npc.json\<close>, an empty directory \<open>DPDP\<close> and
  no other regulation directory; the questionnaire type of the session is not locked.
\<close>

definition example_doc :: questionnaire where
  "example_doc =
     \<lparr>sections = Some [plain_section ''Data Management Strategy'' 1 2],
      answer_points = Some [(''Yes'', Some 1), (''No'', Some 0)]\<rparr>"

definition example_store :: env where
  "example_store =
     \<lparr>dir_exists = (\<lambda>d. d = ''NPC'' \<or> d = ''DPDP''),
      listdir = (\<lambda>d. if d = ''NPC'' then Some [''npc.json'']
                      else if d = ''DPDP'' then Some [] else None),
      file_at = (\<lambda>d f. if d = ''NPC'' \<and> f = ''npc.json'' then Some (Doc example_doc) else None),
      locked_questionnaire_type = None\<rparr>"

text \<open>
  Six sections that each carry the weight 1, the float nearest to 1/6, and an integer
  beyond the range of the floats.
\<close>

definition six_sections :: "section_rec list" where
  "six_sections =
     [plain_section ''Consent'' 1 1, plain_section ''Notice'' 1 1, plain_section ''Rights'' 1 1,
      plain_section ''Security'' 1 1, plain_section ''Breach'' 1 1, plain_section ''Governance'' 1 1]"

definition huge_int :: int where
  "huge_int = 10 ^ 400"

definition one_sixth :: rat where
  "one_sixth = 6004799503160661 / 36028797018963968"

section \<open>Properties\<close>

text \<open>
  C10. The known-scoring-issue fix changes at most the entry of the multi-language notices
  key, and only when that key is present with value 0, which then becomes 1; the keys
  (and their order) stay the same and every other entry keeps its value.
\<close>

theorem fix_known_scoring_issues_frame:
  "map fst (fix_known_scoring_issues ap) = map fst ap
   \<and> (\<forall>k. k \<noteq> notices_key \<longrightarrow> map_of (fix_known_scoring_issues ap) k = map_of ap k)
   \<and> map_of (fix_known_scoring_issues ap) notices_key =
       (if map_of ap notices_key = Some (Some 0) then Some (Some 1) else map_of ap notices_key)"
proof -
  have keys: "map_of ap k = Some v \<Longrightarrow> map fst (AList.update k w ap) = map fst ap" for k v w
    by (simp add: AList.update_keys map_of_eq_None_iff domI dom_map_of_conv_image_fst [symmetric])
  show ?thesis
    by (auto simp: fix_known_scoring_issues_def AList.update_conv' keys)
qed

theorem fix_known_scoring_issues_frame_witness:
  "map fst (fix_known_scoring_issues [(''Yes'', Some 1), (notices_key, Some 0), (''No'', Some 0)])
     = [''Yes'', notices_key, ''No'']
   \<and> map_of (fix_known_scoring_issues [(''Yes'', Some 1), (notices_key, Some 0), (''No'', Some 0)]) ''No''
     = Some (Some 0)
   \<and> map_of (fix_known_scoring_issues [(''Yes'', Some 1), (notices_key, Some 0), (''No'', Some 0)]) notices_key
     = Some (Some 1)"
  using fix_known_scoring_issues_frame [of "[(''Yes'', Some 1), (notices_key, Some 0), (''No'', Some 0)]"]
  by (simp add: notices_key_def)

subsection \<open>The correction pass\<close>

lemma set_map_filter_id: "set (List.map_filter id rs) = {x. Some x \<in> set rs}"
  by (induction rs) (auto simp: List.map_filter_simps split: option.splits)

lemma response_points_all_one:
  assumes "\<forall>response. Some response \<in> set rs \<longrightarrow> response \<noteq> [] \<longrightarrow> map_of ap response = Some (Some 1)"
  shows "list_all (\<lambda>point. point = Some 1) (response_points ap rs)"
  using assms by (auto simp: response_points_def list_all_iff set_map_filter_id)

lemma response_points_nonempty:
  assumes "Some response \<in> set rs" "response \<noteq> []"
  shows "response_points ap rs \<noteq> []"
proof -
  from assms have "response \<in> set (filter (\<lambda>r. r \<noteq> []) (List.map_filter id rs))"
    by (simp add: set_map_filter_id)
  then have "filter (\<lambda>r. r \<noteq> []) (List.map_filter id rs) \<noteq> []"
    by (metis empty_iff empty_set)
  then show ?thesis by (simp add: response_points_def)
qed

text \<open>
  C9. For a numeric raw score, whatever the section name, the responses and the table, the
  correction pass returns a score (it does not raise) and that score is at least the raw
  score.
\<close>

theorem verify_section_score_monotone:
  "\<exists>v. verify_section_score section_name (Some r) rs ap = Inr v \<and> r \<le> v"
  by (simp add: verify_section_score_def)

theorem verify_section_score_monotone_witness:
  "verify_section_score ''Security'' (Some (24 / 25)) [Some ''Yes''] [(''Yes'', Some 1)] = Inr 1
   \<and> (\<exists>v. verify_section_score ''Security'' (Some (24 / 25)) [Some ''Yes''] [(''Yes'', Some 1)] = Inr v
          \<and> 24 / 25 \<le> v)"
  using verify_section_score_monotone [of "''Security''" "24 / 25" "[Some ''Yes'']" "[(''Yes'', Some 1)]"]
  by (simp add: verify_section_score_def should_have_perfect_score_def)

text \<open>
  C4, as the code has it. The all-ones rule is guarded by the section name: for a section
  named exactly "Data Collection and Processing" with a raw score below 1, at least one
  non-empty response, and every non-empty response a key of the table with value 1, the
  correction pass returns 1. For a section of any other name the table plays no part in the
  correction. In every case the result is the raw score or exactly 1: the first rule that
  applies decides, and nothing is adjusted twice.
\<close>

theorem verify_section_score_all_one:
  "(section_name = ''Data Collection and Processing'' \<longrightarrow> r < 1 \<longrightarrow>
      (\<exists>response. Some response \<in> set rs \<and> response \<noteq> []) \<longrightarrow>
      (\<forall>response. Some response \<in> set rs \<longrightarrow> response \<noteq> [] \<longrightarrow> map_of ap response = Some (Some 1)) \<longrightarrow>
      verify_section_score section_name (Some r) rs ap = Inr 1)
   \<and> (section_name \<noteq> ''Data Collection and Processing'' \<longrightarrow>
        verify_section_score section_name (Some r) rs ap = verify_section_score section_name (Some r) rs ap')
   \<and> (verify_section_score section_name (Some r) rs ap = Inr r
        \<or> verify_section_score section_name (Some r) rs ap = Inr 1)"
proof (intro conjI impI)
  assume n: "section_name = ''Data Collection and Processing''" and r: "r < 1"
    and ex: "\<exists>response. Some response \<in> set rs \<and> response \<noteq> []"
    and all: "\<forall>response. Some response \<in> set rs \<longrightarrow> response \<noteq> [] \<longrightarrow> map_of ap response = Some (Some 1)"
  from ex have ne: "response_points ap rs \<noteq> []" using response_points_nonempty by blast
  from ex have "rs \<noteq> []" by auto
  with n r ne response_points_all_one [OF all]
  show "verify_section_score section_name (Some r) rs ap = Inr 1"
    by (simp add: verify_section_score_def)
next
  assume "section_name \<noteq> ''Data Collection and Processing''"
  then show "verify_section_score section_name (Some r) rs ap = verify_section_score section_name (Some r) rs ap'"
    by (simp add: verify_section_score_def)
next
  show "verify_section_score section_name (Some r) rs ap = Inr r
        \<or> verify_section_score section_name (Some r) rs ap = Inr 1"
    by (simp add: verify_section_score_def)
qed

theorem verify_section_score_all_one_witness:
  "verify_section_score ''Data Collection and Processing'' (Some (4 / 5))
      [Some ''Yes'', Some ''Yes, with full documentation'']
      [(''Yes'', Some 1), (''Yes, with full documentation'', Some 1), (''No'', Some 0)] = Inr 1
   \<and> verify_section_score ''Security'' (Some (4 / 5)) [Some ''Yes''] [(''Yes'', Some 1)]
       = verify_section_score ''Security'' (Some (4 / 5)) [Some ''Yes''] []"
proof -
  let ?rs = "[Some ''Yes'', Some ''Yes, with full documentation'']"
  let ?ap = "[(''Yes'', Some 1), (''Yes, with full documentation'', Some 1), (''No'', Some (0::rat))]"
  have lt: "(4 / 5 :: rat) < 1" by simp
  have ex: "\<exists>response. Some response \<in> set ?rs \<and> response \<noteq> []"
    by (rule exI [of _ "''Yes''"]) simp
  have all: "\<forall>response. Some response \<in> set ?rs \<longrightarrow> response \<noteq> []
      \<longrightarrow> map_of ?ap response = Some (Some 1)"
    by auto
  have other: "''Security'' \<noteq> ''Data Collection and Processing''" by simp
  from verify_section_score_all_one [of "''Data Collection and Processing''" "4 / 5" ?rs ?ap "[]"]
    lt ex all
  have one: "verify_section_score ''Data Collection and Processing'' (Some (4 / 5)) ?rs ?ap = Inr 1"
    by blast
  from verify_section_score_all_one [of "''Security''" "4 / 5" "[Some ''Yes'']" "[(''Yes'', Some 1)]" "[]"]
    other
  have two: "verify_section_score ''Security'' (Some (4 / 5)) [Some ''Yes''] [(''Yes'', Some 1)]
       = verify_section_score ''Security'' (Some (4 / 5)) [Some ''Yes''] []"
    by blast
  from one two show ?thesis by simp
qed

text \<open>
  C4 as stated fails for a section of another name: with raw score 1/2 and the single
  response "Yes" worth 1 point, the score of the section "Security" stays 1/2.
\<close>

theorem verify_section_score_other_name_counterexample:
  "(1 / 2 :: rat) < 1
   \<and> response_points [(''Yes'', Some 1)] [Some ''Yes''] = [Some 1]
   \<and> verify_section_score ''Security'' (Some (1 / 2)) [Some ''Yes''] [(''Yes'', Some 1)] = Inr (1 / 2)"
  by (simp add: verify_section_score_def should_have_perfect_score_def response_points_def
      List.map_filter_def full_compliance_patterns_def py_lower_def lower_char_def startswith_def)

subsection \<open>The standalone section scorer\<close>

lemma startswith_iff: "startswith s p \<longleftrightarrow> (\<exists>b. s = p @ b)"
  unfolding startswith_def
  by (metis append_eq_conv_conj append_take_drop_id)

lemma py_in_iff: "py_in p s \<longleftrightarrow> (\<exists>a b. s = a @ p @ b)"
proof (induction s)
  case Nil
  then show ?case by auto
next
  case (Cons c cs)
  show ?case
  proof
    assume "py_in p (c # cs)"
    then consider "startswith (c # cs) p" | "py_in p cs" by auto
    then show "\<exists>a b. c # cs = a @ p @ b"
    proof cases
      case 1
      then obtain b where "c # cs = p @ b" by (auto simp: startswith_iff)
      then have "c # cs = [] @ p @ b" by simp
      then show ?thesis by blast
    next
      case 2
      with Cons.IH obtain a b where "cs = a @ p @ b" by blast
      then have "c # cs = (c # a) @ p @ b" by simp
      then show ?thesis by blast
    qed
  next
    assume "\<exists>a b. c # cs = a @ p @ b"
    then obtain a b where ab: "c # cs = a @ p @ b" by blast
    show "py_in p (c # cs)"
    proof (cases a)
      case Nil
      with ab have "startswith (c # cs) p" by (auto simp: startswith_iff)
      then show ?thesis by simp
    next
      case (Cons x xs)
      with ab have "cs = xs @ p @ b" by simp
      with Cons.IH have "py_in p cs" by blast
      then show ?thesis by simp
    qed
  qed
qed

lemma py_in_prefix: "py_in (x @ y) s \<Longrightarrow> py_in x s"
proof -
  assume "py_in (x @ y) s"
  then obtain a b where "s = a @ (x @ y) @ b" by (auto simp: py_in_iff)
  then have "s = a @ x @ (y @ b)" by simp
  then show ?thesis unfolding py_in_iff by blast
qed

lemma not_applicable_contains_no: "py_in ''not applicable'' s \<Longrightarrow> py_in ''no'' s"
  using py_in_prefix [of "''no''" "''t applicable''" s] by simp

lemma find_None_map_of:
  assumes "find (\<lambda>(answer, points). py_lower answer = py_lower response) ap = None"
  shows "map_of ap response = None"
proof -
  from assms have "\<forall>x\<in>set ap. py_lower (fst x) \<noteq> py_lower response"
    by (auto simp: find_None_iff)
  then have "response \<notin> fst ` set ap" by auto
  then show ?thesis by (simp add: map_of_eq_None_iff)
qed

text \<open>
  C5. What the code does with a response that matches no table key, exactly or
  case-insensitively, and whose lowercased text contains "not applicable": the text then
  contains "no", so the second heuristic rule (or the first, when the text also contains
  "yes" or "successfully completed") decides before the "not applicable" rule is reached.
  The response gets 0 points (or 1) and is counted among the applicable questions; it is
  never excluded.
\<close>

theorem not_applicable_text_is_scored:
  assumes nomatch: "find (\<lambda>(answer, points). py_lower answer = py_lower response) ap = None"
    and na: "py_in ''not applicable'' (py_lower response)"
    and r: "rs (response_key section_idx q_idx) = Some (Some response)"
  shows "resolve_point ap response =
           (Some (if py_in ''yes'' (py_lower response)
                     \<or> py_in ''successfully completed'' (py_lower response) then 1 else 0), [])
         \<and> applicable_questions (score_question ap rs section_idx acc q_idx)
             = applicable_questions acc + 1"
proof -
  from na have no: "py_in ''no'' (py_lower response)" by (rule not_applicable_contains_no)
  from na have ne: "response \<noteq> []" by (auto simp: py_lower_def)
  have rp: "resolve_point ap response =
           (Some (if py_in ''yes'' (py_lower response)
                     \<or> py_in ''successfully completed'' (py_lower response) then 1 else 0), [])"
    using nomatch find_None_map_of [OF nomatch] no
    by (simp add: resolve_point_def case_insensitive_point_def heuristic_point_def Let_def)
  show ?thesis
    using rp r ne by (simp add: score_question_def)
qed


theorem not_applicable_text_is_scored_witness:
  "resolve_point [(''Yes'', Some 1), (''No'', Some 0)] ''Not applicable to us'' = (Some 0, [])
   \<and> calculate_section_score (plain_section ''Consent'' 1 2)
        [response_key 0 0 \<mapsto> Some ''Yes'', response_key 0 1 \<mapsto> Some ''Not applicable to us'']
        [(''Yes'', Some 1), (''No'', Some 0)] = Some (1 / 2)"
proof -
  let ?ap = "[(''Yes'', Some 1), (''No'', Some (0::rat))]"
  let ?rs = "[response_key 0 0 \<mapsto> Some ''Yes'', response_key 0 1 \<mapsto> Some ''Not applicable to us'']"
  have h1: "find (\<lambda>(answer, points). py_lower answer = py_lower ''Not applicable to us'') ?ap = None"
    by (simp add: py_lower_def lower_char_def)
  have h2: "py_in ''not applicable'' (py_lower ''Not applicable to us'')"
    by (simp add: py_lower_def lower_char_def startswith_def)
  have h3: "?rs (response_key 0 1) = Some (Some ''Not applicable to us'')"
    by simp
  from not_applicable_text_is_scored [where response = "''Not applicable to us''" and ap = ?ap
      and rs = ?rs and section_idx = 0 and q_idx = 1, OF h1 h2 h3]
  have "resolve_point ?ap ''Not applicable to us'' = (Some 0, [])"
    by (simp add: py_lower_def lower_char_def startswith_def)
  moreover have "calculate_section_score (plain_section ''Consent'' 1 2) ?rs ?ap = Some (1 / 2)"
    by (simp add: calculate_section_score_def score_questions_def score_question_def resolve_point_def
        case_insensitive_point_def heuristic_point_def plain_section_def response_key_def
        show_nat.simps digit_char_def py_lower_def lower_char_def startswith_def upt_conv_Cons)
  ultimately show ?thesis by simp
qed

subsection \<open>The raw score inside calculate_compliance_score\<close>

text \<open>
  C1. In calculate_compliance_score the raw score is \<open>total_points\<close> divided by the number
  of questions of the section. A section of three questions answered "Yes", "Yes" and
  "Not applicable" (default table: 1, 1 and excluded) has the raw and the stored score 2/3,
  and a section of two questions with one "Yes" and one question unanswered has the raw
  score 1/2; calculate_section_score gives 1 on the first of these inputs.
\<close>

theorem raw_section_score_counts_all_questions:
  "raw_section_score default_answer_points
      [response_key 0 0 \<mapsto> Some ''Yes'', response_key 0 1 \<mapsto> Some ''Yes'',
       response_key 0 2 \<mapsto> Some ''Not applicable'']
      0 (plain_section ''Consent'' 1 3) = Some (2 / 3)
   \<and> stored_section_score default_answer_points
      [response_key 0 0 \<mapsto> Some ''Yes'', response_key 0 1 \<mapsto> Some ''Yes'',
       response_key 0 2 \<mapsto> Some ''Not applicable'']
      0 (plain_section ''Consent'' 1 3) = Some (2 / 3)
   \<and> raw_section_score default_answer_points [response_key 0 0 \<mapsto> Some ''Yes'']
      0 (plain_section ''Consent'' 1 2) = Some (1 / 2)
   \<and> calculate_section_score (plain_section ''Consent'' 1 3)
      [response_key 0 0 \<mapsto> Some ''Yes'', response_key 0 1 \<mapsto> Some ''Yes'',
       response_key 0 2 \<mapsto> Some ''Not applicable'']
      default_answer_points = Some 1"
  by (simp add: raw_section_score_def stored_section_score_def collect_section_def
      collect_response_def verify_section_score_def should_have_perfect_score_def
      full_compliance_patterns_def section_name_of_def
      calculate_section_score_def score_questions_def score_question_def resolve_point_def
      default_answer_points_def plain_section_def response_key_def
      show_nat.simps digit_char_def py_lower_def lower_char_def startswith_def upt_conv_Cons)

subsection \<open>Responses that no rule resolves\<close>




subsection \<open>Sections without an answered question and the overall score\<close>

text \<open>
  C7. A section answered only with "Not applicable" has no answered question: the default
  table excludes that response. calculate_compliance_score nevertheless stores the score
  0 for it and keeps its weight in the overall average: with the sections "Consent"
  (answered "Not applicable") and "Security" (answered "Yes"), each of one question and
  weight 1/2, the overall score is 50, not 100. With "Consent" left unanswered the section
  is stored as \<open>None\<close>, carries no weight, and the overall score is 100. When the
  unanswered section has no name, no result is returned: the recommendations loop raises
  \<open>KeyError\<close>. Every number of the three runs is a float that the arithmetic of the
  source computes exactly.
\<close>

theorem not_applicable_section_keeps_weight:
  "calculate_compliance_score
      \<lparr>sections = Some [plain_section ''Consent'' (1 / 2) 1, plain_section ''Security'' (1 / 2) 1],
       answer_points = None\<rparr>
      [response_key 0 0 \<mapsto> Some ''Not applicable'', response_key 1 0 \<mapsto> Some ''Yes'']
     = Inr (50, [(''Consent'', Some 0), (''Security'', Some 1)])
   \<and> calculate_compliance_score
      \<lparr>sections = Some [plain_section ''Consent'' (1 / 2) 1, plain_section ''Security'' (1 / 2) 1],
       answer_points = None\<rparr>
      [response_key 1 0 \<mapsto> Some ''Yes'']
     = Inr (100, [(''Consent'', None), (''Security'', Some 1)])
   \<and> calculate_compliance_score
      \<lparr>sections = Some [(plain_section ''Consent'' (1 / 2) 1)\<lparr>name := None\<rparr>,
                        plain_section ''Security'' (1 / 2) 1],
       answer_points = None\<rparr>
      [response_key 1 0 \<mapsto> Some ''Yes'']
     = Inl KeyError"
  by (simp add: calculate_compliance_score_def scoring_answer_points_def
      fix_known_scoring_issues_def notices_key_def default_answer_points_def
      section_scores_def stored_section_score_def raw_section_score_def collect_section_def
      collect_response_def partial_match_points_def verify_section_score_def
      should_have_perfect_score_def full_compliance_patterns_def response_points_def
      section_name_of_def weighted_totals_def add_weighted_def percentage_def
      recommendation_error_def question_raises_def List.map_filter_def
      plain_section_def response_key_def show_nat.simps digit_char_def
      py_lower_def lower_char_def startswith_def upt_conv_Cons)

subsection \<open>Questionnaire resolution\<close>

text \<open>
  C8. For a regulation code that normalises to "NPC", the file chosen is \<open>npc.json\<close>
  whatever the industry code (the early fallback when that file is missing does not look
  at the industry either), and when the NPC directory holds \<open>npc.json\<close> the result of the
  resolution is that document (the empty questionnaire if it fails to load), the same for
  every industry code.
\<close>

theorem npc_ignores_industry:
  assumes reg: "py_upper (py_strip regulation) = ''NPC''"
  shows "find_file e ''NPC'' (py_lower (py_strip industry))
           = (if file_at e ''NPC'' ''npc.json'' \<noteq> None then Found ''npc.json'' else UseFallback)
       \<and> (dir_exists e ''NPC'' \<longrightarrow> file_at e ''NPC'' ''npc.json'' = Some f \<longrightarrow>
            get_questionnaire e regulation industry
              = (case f of Doc q \<Rightarrow> q | _ \<Rightarrow> empty_questionnaire)
            \<and> get_questionnaire e regulation industry' = get_questionnaire e regulation industry)"
  using reg by (auto simp: find_file_def get_questionnaire_def Let_def split: stored_file.splits)

theorem npc_ignores_industry_witness:
  "find_file example_store ''NPC'' (py_lower (py_strip ''Banking and finance'')) = Found ''npc.json''
   \<and> get_questionnaire example_store '' npc '' ''Banking and finance'' = example_doc
   \<and> get_questionnaire example_store '' npc '' ''E-commerce''
       = get_questionnaire example_store '' npc '' ''Banking and finance''"
proof -
  have reg: "py_upper (py_strip '' npc '') = ''NPC''"
    by (simp add: py_upper_def py_strip_def is_space_def upper_char_def)
  have d: "dir_exists example_store ''NPC''" by (simp add: example_store_def)
  have f: "file_at example_store ''NPC'' ''npc.json'' = Some (Doc example_doc)"
    by (simp add: example_store_def)
  note T = npc_ignores_industry [OF reg, of example_store "''Banking and finance''" "Doc example_doc"
      "''E-commerce''"]
  from T f have "find_file example_store ''NPC'' (py_lower (py_strip ''Banking and finance'')) = Found ''npc.json''"
    by simp
  moreover from T d f have "get_questionnaire example_store '' npc '' ''Banking and finance'' = example_doc
    \<and> get_questionnaire example_store '' npc '' ''E-commerce''
       = get_questionnaire example_store '' npc '' ''Banking and finance''"
    by simp
  ultimately show ?thesis by simp
qed

lemma minimal_questionnaire_shape:
  "\<exists>ss. sections (minimal_questionnaire (fallback_section_names R I)) = Some ss
        \<and> (length ss = 2 \<or> length ss = 4)
        \<and> (\<forall>s\<in>set ss. weight s = Some (JNum (1 / of_nat (length ss))) \<and> length (questions s) = 1)"
  by (auto simp: minimal_questionnaire_def fallback_section_names_def)

text \<open>
  C2, as the code has it. The resolution is a total function: it returns a questionnaire
  for every pair of codes. When the directory of the regulation is missing (or, for NPC,
  the file \<open>npc.json\<close>) and the questionnaire type is not locked to e-commerce, the result
  is the synthesized questionnaire, of 2 or 4 sections with equal weights and one sample
  question each. When the directory exists and the chosen file is missing, cannot be opened
  or parsed, or the directory cannot be listed, the result is the empty questionnaire
  \<open>{"sections": []}\<close>. A document that loads is returned as it is.
\<close>

theorem get_questionnaire_fallbacks:
  assumes R: "R = py_upper (py_strip regulation)" and I: "I = py_lower (py_strip industry)"
  shows "((\<not> dir_exists e R \<or> find_file e R I = UseFallback)
            \<and> locked_questionnaire_type e \<noteq> Some ''e-commerce'' \<longrightarrow>
          get_questionnaire e regulation industry = minimal_questionnaire (fallback_section_names R I)
          \<and> (\<exists>ss. sections (get_questionnaire e regulation industry) = Some ss
                \<and> (length ss = 2 \<or> length ss = 4)
                \<and> (\<forall>s\<in>set ss. weight s = Some (JNum (1 / of_nat (length ss)))
                                  \<and> length (questions s) = 1)))
       \<and> (dir_exists e R
            \<and> (find_file e R I = Raised
                \<or> (\<exists>found_file. find_file e R I = Found found_file
                      \<and> (\<forall>q. file_at e R found_file \<noteq> Some (Doc q)))) \<longrightarrow>
          get_questionnaire e regulation industry = empty_questionnaire
          \<and> sections (get_questionnaire e regulation industry) = Some [])
       \<and> (\<forall>found_file q. dir_exists e R \<and> find_file e R I = Found found_file
            \<and> file_at e R found_file = Some (Doc q) \<longrightarrow>
          get_questionnaire e regulation industry = q)"
proof (intro conjI impI allI)
  assume h: "(\<not> dir_exists e R \<or> find_file e R I = UseFallback)
            \<and> locked_questionnaire_type e \<noteq> Some ''e-commerce''"
  then have "get_questionnaire e regulation industry = create_fallback_questionnaire e R I"
    using R I by (auto simp: get_questionnaire_def Let_def)
  also have "\<dots> = minimal_questionnaire (fallback_section_names R I)"
    using h by (simp add: create_fallback_questionnaire_def)
  finally show eq: "get_questionnaire e regulation industry
      = minimal_questionnaire (fallback_section_names R I)" .
  show "\<exists>ss. sections (get_questionnaire e regulation industry) = Some ss
                \<and> (length ss = 2 \<or> length ss = 4)
                \<and> (\<forall>s\<in>set ss. weight s = Some (JNum (1 / of_nat (length ss)))
                                  \<and> length (questions s) = 1)"
    unfolding eq by (rule minimal_questionnaire_shape)
next
  assume h: "dir_exists e R
            \<and> (find_file e R I = Raised
                \<or> (\<exists>found_file. find_file e R I = Found found_file
                      \<and> (\<forall>q. file_at e R found_file \<noteq> Some (Doc q))))"
  then show eq: "get_questionnaire e regulation industry = empty_questionnaire"
    using R I by (auto simp: get_questionnaire_def Let_def split: option.splits stored_file.splits)
  show "sections (get_questionnaire e regulation industry) = Some []"
    unfolding eq by (simp add: empty_questionnaire_def)
next
  fix found_file q
  assume "dir_exists e R \<and> find_file e R I = Found found_file
            \<and> file_at e R found_file = Some (Doc q)"
  then show "get_questionnaire e regulation industry = q"
    using R I by (simp add: get_questionnaire_def Let_def)
qed

theorem get_questionnaire_fallbacks_witness:
  "get_questionnaire example_store ''oaic'' ''General''
     = minimal_questionnaire [''Data Collection'', ''Data Processing'']
   \<and> get_questionnaire example_store ''dpdp '' ''Retail'' = empty_questionnaire
   \<and> get_questionnaire example_store ''NPC'' ''General'' = example_doc"
proof -
  note ev = py_upper_def py_lower_def py_strip_def is_space_def upper_char_def lower_char_def
  have R1: "''OAIC'' = py_upper (py_strip ''oaic'')" and I1: "''general'' = py_lower (py_strip ''General'')"
    by (simp_all add: ev)
  have h1: "(\<not> dir_exists example_store ''OAIC'' \<or> find_file example_store ''OAIC'' ''general'' = UseFallback)
            \<and> locked_questionnaire_type example_store \<noteq> Some ''e-commerce''"
    by (simp add: example_store_def)
  from get_questionnaire_fallbacks [OF R1 I1, of example_store, THEN conjunct1, THEN mp, OF h1]
  have c1: "get_questionnaire example_store ''oaic'' ''General''
     = minimal_questionnaire [''Data Collection'', ''Data Processing'']"
    by (simp add: fallback_section_names_def)
  have R2: "''DPDP'' = py_upper (py_strip ''dpdp '')" and I2: "''retail'' = py_lower (py_strip ''Retail'')"
    by (simp_all add: ev)
  have h2: "dir_exists example_store ''DPDP''
            \<and> (find_file example_store ''DPDP'' ''retail'' = Raised
                \<or> (\<exists>found_file. find_file example_store ''DPDP'' ''retail'' = Found found_file
                      \<and> (\<forall>q. file_at example_store ''DPDP'' found_file \<noteq> Some (Doc q))))"
    by (simp add: example_store_def find_file_def)
  from get_questionnaire_fallbacks [OF R2 I2, of example_store, THEN conjunct2, THEN conjunct1, THEN mp, OF h2]
  have c2: "get_questionnaire example_store ''dpdp '' ''Retail'' = empty_questionnaire"
    by simp
  have R3: "''NPC'' = py_upper (py_strip ''NPC'')" and I3: "''general'' = py_lower (py_strip ''General'')"
    by (simp_all add: ev)
  have h3: "dir_exists example_store ''NPC'' \<and> find_file example_store ''NPC'' ''general'' = Found ''npc.json''
            \<and> file_at example_store ''NPC'' ''npc.json'' = Some (Doc example_doc)"
    by (simp add: example_store_def find_file_def)
  from get_questionnaire_fallbacks [OF R3 I3, of example_store, THEN conjunct2, THEN conjunct2,
      THEN spec, THEN spec, THEN mp, OF h3]
  have c3: "get_questionnaire example_store ''NPC'' ''General'' = example_doc" .
  from c1 c2 c3 show ?thesis by simp
qed

text \<open>
  C2 as stated fails when loading fails: the directory \<open>DPDP\<close> exists but holds neither
  \<open>retail.json\<close> nor the default \<open>Banking and finance.json\<close>, and the resolution returns
  the questionnaire without sections.
\<close>

theorem get_questionnaire_empty_counterexample:
  "get_questionnaire example_store ''DPDP'' ''retail'' = \<lparr>sections = Some [], answer_points = None\<rparr>
   \<and> sections (get_questionnaire example_store ''DPDP'' ''retail'') = Some []"
  by (simp add: get_questionnaire_def find_file_def example_store_def empty_questionnaire_def
      py_upper_def py_lower_def py_strip_def is_space_def upper_char_def lower_char_def)

subsection \<open>Rounding to binary64\<close>

lemma floor_log2_bounds:
  assumes x: "0 < x"
  shows "2 powi floor_log2 x \<le> x \<and> x < 2 powi (floor_log2 x + 1)"
proof (cases "1 \<le> x")
  case True
  let ?n = "\<lfloor>x\<rfloor>"
  from True have n: "0 < ?n" by simp
  from bitlen_bounds [OF n] have b: "2 ^ nat (bitlen ?n - 1) \<le> ?n" "?n < 2 ^ nat (bitlen ?n)" by auto
  from n have bl: "1 \<le> bitlen ?n" by (simp add: bitlen_alt_def)
  have e: "floor_log2 x = bitlen ?n - 1" using True by (simp add: floor_log2_def)
  have p1: "(2::rat) powi (bitlen ?n - 1) = of_int (2 ^ nat (bitlen ?n - 1))"
    using bl by (simp add: power_int_def)
  have p2: "(2::rat) powi (bitlen ?n) = of_int (2 ^ nat (bitlen ?n))"
    using bl by (simp add: power_int_def)
  have "(2::rat) powi (bitlen ?n - 1) \<le> of_int ?n" unfolding p1 using b(1) by (simp only: of_int_le_iff)
  also have "\<dots> \<le> x" by simp
  finally have lo: "2 powi (bitlen ?n - 1) \<le> x" .
  from b(2) have "?n + 1 \<le> 2 ^ nat (bitlen ?n)" by simp
  then have "(of_int (?n + 1) :: rat) \<le> of_int (2 ^ nat (bitlen ?n))" by (simp only: of_int_le_iff)
  moreover have "x < of_int (?n + 1)" by simp linarith
  ultimately have hi: "x < 2 powi (bitlen ?n)" unfolding p2 by linarith
  from lo hi e show ?thesis by simp
next
  case False
  with x have x1: "x < 1" by simp
  let ?c = "\<lceil>1 / x\<rceil>"
  let ?m = "?c - 1"
  from x x1 have y: "1 < 1 / x" by simp
  then have c: "2 \<le> ?c" by (simp add: le_ceiling_iff) 
  then have m: "0 < ?m" by simp
  from bitlen_bounds [OF m] have b: "2 ^ nat (bitlen ?m - 1) \<le> ?m" "?m < 2 ^ nat (bitlen ?m)" by auto
  from m have bl: "1 \<le> bitlen ?m" by (simp add: bitlen_alt_def)
  have e: "floor_log2 x = - bitlen ?m" using False by (simp add: floor_log2_def)
  have p1: "(2::rat) powi (bitlen ?m - 1) = of_int (2 ^ nat (bitlen ?m - 1))"
    using bl by (simp add: power_int_def)
  have p2: "(2::rat) powi (bitlen ?m) = of_int (2 ^ nat (bitlen ?m))"
    using bl by (simp add: power_int_def)
  have "1 / x \<le> of_int ?c" by (rule le_of_int_ceiling)
  also have "(of_int ?c :: rat) \<le> of_int (2 ^ nat (bitlen ?m))"
    using b(2) by (simp only: of_int_le_iff)
  finally have up: "1 / x \<le> 2 powi (bitlen ?m)" unfolding p2 .
  have "(of_int (2 ^ nat (bitlen ?m - 1)) :: rat) \<le> of_int ?m" using b(1) by (simp only: of_int_le_iff)
  also have "(of_int ?m :: rat) < 1 / x" using of_int_ceiling_diff_one_le [of "1 / x"] 
    by (simp add: ceiling_correct less_ceiling_iff [symmetric]) 
  finally have dn: "2 powi (bitlen ?m - 1) < 1 / x" unfolding p1 .
  have pos: "(0::rat) < 2 powi (bitlen ?m)" "(0::rat) < 2 powi (bitlen ?m - 1)" by simp_all
  have lo: "2 powi (- bitlen ?m) \<le> x"
  proof -
    from up x have "1 \<le> x * 2 powi (bitlen ?m)" by (simp add: field_simps)
    then show ?thesis by (simp add: power_int_minus field_simps)
  qed
  have hi: "x < 2 powi (- bitlen ?m + 1)"
  proof -
    from dn x have "x * 2 powi (bitlen ?m - 1) < 1" by (simp add: field_simps)
    also have "(1::rat) = 2 powi (- bitlen ?m + 1) * 2 powi (bitlen ?m - 1)"
      by (simp flip: power_int_add)
    finally show ?thesis using pos(2) by (simp only: mult_less_cancel_right_pos)
  qed
  from lo hi e show ?thesis by simp
qed

lemma floor_log2_eq:
  assumes "0 < x" "2 powi e \<le> x" "x < 2 powi (e + 1)"
  shows "floor_log2 x = e"
proof -
  from floor_log2_bounds [OF assms(1)]
  have b: "2 powi floor_log2 x \<le> x" "x < 2 powi (floor_log2 x + 1)" by auto
  from assms(2) b(2) have "(2::rat) powi e < 2 powi (floor_log2 x + 1)" by linarith
  then have 1: "e < floor_log2 x + 1"
    using power_int_increasing [of "floor_log2 x + 1" e "2::rat"] by (cases "e < floor_log2 x + 1") auto
  from b(1) assms(3) have "(2::rat) powi floor_log2 x < 2 powi (e + 1)" by linarith
  then have 2: "floor_log2 x < e + 1"
    using power_int_increasing [of "e + 1" "floor_log2 x" "2::rat"] by (cases "floor_log2 x < e + 1") auto
  from 1 2 show ?thesis by simp
qed

lemma round_half_even_near:
  assumes "\<bar>y - of_int m\<bar> < 1 / 2"
  shows "round_half_even y = m"
proof (cases "of_int m \<le> y")
  case True
  with assms have "y < of_int m + 1" by linarith
  with True have f: "\<lfloor>y\<rfloor> = m" by (simp add: floor_unique)
  with assms True show ?thesis by (simp add: round_half_even_def Let_def)
next
  case False
  with assms have "of_int (m - 1) \<le> y" "y < of_int (m - 1) + 1" by simp_all
  then have f: "\<lfloor>y\<rfloor> = m - 1" by (simp add: floor_unique)
  with assms False show ?thesis by (auto simp: round_half_even_def Let_def)
qed

lemma round_half_even_tie:
  assumes "y = of_int f + 1 / 2" "m = (if even f then f else f + 1)"
  shows "round_half_even y = m"
proof -
  have "\<lfloor>y\<rfloor> = f" using assms(1) by (simp add: floor_unique)
  then show ?thesis using assms by (simp add: round_half_even_def Let_def)
qed

lemma round_double_eq:
  assumes "round_half_even (x / 2 powi (e - 52)) = m"
    and "0 < x" "2 powi e \<le> x" "x < 2 powi (e + 1)" "- 1022 \<le> e"
    and "r = of_int m * 2 powi (e - 52)" "r < 2 ^ 1024"
  shows "round_double x = Some r"
proof -
  have fl: "floor_log2 \<bar>x\<bar> = e" using assms(2-4) by (simp add: floor_log2_eq)
  have k: "max (e - 52) (- 1074) = e - 52" using assms(5) by simp
  show ?thesis
    using assms(1,2,6,7) fl k by (simp add: round_double_def Let_def)
qed

lemma int_add_eq:
  "round_double (0 + b) = Some r \<Longrightarrow> py_add (Finite (PInt 0)) (PFloat b) = Inr (Finite (PFloat r))"
  by (simp add: py_add_def to_float_def rounded_total_def round_double_def)

lemma float_add_eq:
  "round_double (a + b) = Some r \<Longrightarrow>
   py_add (Finite (PFloat a)) (PFloat b) = Inr (Finite (PFloat r))"
  by (simp add: py_add_def to_float_def rounded_total_def)

lemma float_div_eq:
  "b \<noteq> 0 \<Longrightarrow> round_double (a / b) = Some r \<Longrightarrow> float_div a b = Inr r"
  by (simp add: float_div_def)

lemma round_half_even_ge:
  assumes "of_int n \<le> y"
  shows "n \<le> round_half_even y"
proof -
  from assms have "n \<le> \<lfloor>y\<rfloor>" by (simp add: le_floor_iff)
  then show ?thesis by (auto simp: round_half_even_def Let_def)
qed

lemma round_double_overflow:
  assumes x: "0 < x" and lo: "2 powi e \<le> x" and hi: "x < 2 powi (e + 1)" and e: "1024 \<le> e"
  shows "round_double x = None"
proof -
  have fl: "floor_log2 \<bar>x\<bar> = e" using x lo hi by (simp add: floor_log2_eq)
  have k: "max (e - 52) (- 1074) = e - 52" using e by simp
  let ?p = "(2::rat) powi (e - 52)"
  have p: "0 < ?p" by simp
  have split: "(2::rat) powi e = 2 ^ 52 * ?p"
    using power_int_add [of "2::rat" 52 "e - 52"] by simp
  have "of_int (2 ^ 52) * ?p \<le> x" using lo split by simp
  then have "of_int (2 ^ 52) \<le> x / ?p" using p by (simp add: pos_le_divide_eq)
  then have "2 ^ 52 \<le> round_half_even (x / ?p)" by (rule round_half_even_ge)
  then have "(of_int (2 ^ 52) :: rat) \<le> of_int (round_half_even (x / ?p))"
    by (simp only: of_int_le_iff)
  then have "of_int (2 ^ 52) * ?p \<le> of_int (round_half_even (x / ?p)) * ?p"
    using p by (simp only: mult_le_cancel_right_pos)
  then have "(2::rat) powi e \<le> of_int (round_half_even (x / ?p)) * ?p" using split by simp
  moreover have "(2::rat) ^ 1024 \<le> 2 powi e"
    using power_int_increasing [of 1024 e "2::rat"] e by simp
  ultimately have "(2::rat) ^ 1024 \<le> of_int (round_half_even (x / ?p)) * ?p" by linarith
  then show ?thesis using x fl k by (simp add: round_double_def Let_def)
qed

text \<open>The roundings that the examples below go through, each with its exponent and its
  53-bit significand.\<close>

lemma round_0_99: "round_double (99 / 100) = Some float_0_99"
  by (rule round_double_eq [where e = "- 1" and m = 8917127262193582], rule round_half_even_near, (simp_all add: float_0_99_def))

lemma round_1_01: "round_double (101 / 100) = Some float_1_01"
  by (rule round_double_eq [where e = "0" and m = 4548635623644201], rule round_half_even_near, (simp_all add: float_1_01_def))

lemma add_ones_1: "py_add (Finite (PInt 0)) (PFloat 1) = Inr (Finite (PFloat 1))"
  by (rule int_add_eq, rule round_double_eq [where e = "0" and m = 4503599627370496], rule round_half_even_near, simp_all)

lemma add_ones_2: "py_add (Finite (PFloat 1)) (PFloat 1) = Inr (Finite (PFloat 2))"
  by (rule float_add_eq, rule round_double_eq [where e = "1" and m = 4503599627370496], rule round_half_even_near, simp_all)

lemma add_ones_3: "py_add (Finite (PFloat 2)) (PFloat 1) = Inr (Finite (PFloat 3))"
  by (rule float_add_eq, rule round_double_eq [where e = "1" and m = 6755399441055744], rule round_half_even_near, simp_all)

lemma add_ones_4: "py_add (Finite (PFloat 3)) (PFloat 1) = Inr (Finite (PFloat 4))"
  by (rule float_add_eq, rule round_double_eq [where e = "2" and m = 4503599627370496], rule round_half_even_near, simp_all)

lemma add_ones_5: "py_add (Finite (PFloat 4)) (PFloat 1) = Inr (Finite (PFloat 5))"
  by (rule float_add_eq, rule round_double_eq [where e = "2" and m = 5629499534213120], rule round_half_even_near, simp_all)

lemma add_ones_6: "py_add (Finite (PFloat 5)) (PFloat 1) = Inr (Finite (PFloat 6))"
  by (rule float_add_eq, rule round_double_eq [where e = "2" and m = 6755399441055744], rule round_half_even_near, simp_all)

lemma div_one_six: "float_div 1 6 = Inr (6004799503160661 / 36028797018963968)"
  by (rule float_div_eq, simp, rule round_double_eq [where e = "- 3" and m = 6004799503160661], rule round_half_even_near, simp_all)

lemma add_half_1: "py_add (Finite (PInt 0)) (PFloat (1 / 2)) = Inr (Finite (PFloat (1 / 2)))"
  by (rule int_add_eq, rule round_double_eq [where e = "- 1" and m = 4503599627370496], rule round_half_even_near, simp_all)

lemma add_half_2: "py_add (Finite (PFloat (1 / 2))) (PFloat (2242792614430507 / 4503599627370496)) = Inr (Finite (PFloat (4494592428115755 / 4503599627370496)))"
  by (rule float_add_eq, rule round_double_eq [where e = "- 1" and m = 8989184856231510], rule round_half_even_near, simp_all)

lemma add_tenths_1: "py_add (Finite (PInt 0)) (PFloat (5404319552844595 / 9007199254740992)) = Inr (Finite (PFloat (5404319552844595 / 9007199254740992)))"
  by (rule int_add_eq, rule round_double_eq [where e = "- 1" and m = 5404319552844595], rule round_half_even_near, simp_all)

lemma add_tenths_2: "py_add (Finite (PFloat (5404319552844595 / 9007199254740992))) (PFloat (5404319552844595 / 18014398509481984)) = Inr (Finite (PFloat (2026619832316723 / 2251799813685248)))"
  by (rule float_add_eq, rule round_double_eq [where e = "- 1" and m = 8106479329266892], rule round_half_even_tie [where f = 8106479329266892], simp_all)

lemma add_tenths_3: "py_add (Finite (PFloat (2026619832316723 / 2251799813685248))) (PFloat (3242591731706757 / 36028797018963968)) = Inr (Finite (PFloat (8917127262193581 / 9007199254740992)))"
  by (rule float_add_eq, rule round_double_eq [where e = "- 1" and m = 8917127262193581], rule round_half_even_near, simp_all)

lemma sum_six_ones:
  "py_sum binary64 [PFloat 1, PFloat 1, PFloat 1, PFloat 1, PFloat 1, PFloat 1]
     = Inr (Finite (PFloat 6))"
  by (simp add: binary64_def add_ones_1 add_ones_2 add_ones_3 add_ones_4 add_ones_5 add_ones_6)

lemma div_six: "py_div binary64 (PFloat 1) (Finite (PFloat 6)) = Inr one_sixth"
  by (simp add: binary64_def to_float_def div_one_six one_sixth_def)

text \<open>The floats 0.6, 0.3 and 0.09 have the exact sum 0.99 up to rounding of the
  literals, and the computed total 0.9899999999999999, outside the band.\<close>

lemma sum_tenths:
  "py_sum binary64 [PFloat (5404319552844595 / 9007199254740992),
                    PFloat (5404319552844595 / 18014398509481984),
                    PFloat (3242591731706757 / 36028797018963968)]
     = Inr (Finite (PFloat (8917127262193581 / 9007199254740992)))
   \<and> \<not> close_to_one (Finite (PFloat (8917127262193581 / 9007199254740992)))"
  by (simp add: binary64_def add_tenths_1 add_tenths_2 add_tenths_3 close_to_one_def float_0_99_def)

lemma sum_overflow:
  "py_sum binary64 [PInt huge_int, PFloat (1 / 2)] = Inl OverflowError"
proof -
  have "round_double (of_int huge_int) = None"
    by (rule round_double_overflow [where e = 1328]) (simp_all add: huge_int_def)
  then show ?thesis by (simp add: binary64_def py_add_def to_float_def)
qed

subsection \<open>Weight repair\<close>

text \<open>
  An exception inside the repair is caught and the result is \<open>None\<close>: an integer weight
  too large for a float makes \<open>sum\<close> raise \<open>OverflowError\<close> when it meets the float
  weight 0.5.
\<close>

lemma fix_questionnaire_weights_overflow:
  "fix_questionnaire_weights binary64
       \<lparr>sections = Some [(plain_section ''Consent'' 1 1)\<lparr>weight := Some (JInt huge_int)\<rparr>,
                         plain_section ''Security'' (1 / 2) 1],
        answer_points = None\<rparr> = None"
proof -
  have "0 < huge_int" by (simp add: huge_int_def)
  then show ?thesis
    by (simp add: fix_questionnaire_weights_def equal_weights_def plain_section_def
        positive_weight_def weight_number_def sum_overflow)
qed

lemma num_of_py_number:
  "num_of w = Some r \<Longrightarrow> \<exists>x. py_number w = Some x \<and> value_of x = r"
  by (cases w) auto

lemma weight_number_repaired:
  "weight_number (if positive_weight s then s else s\<lparr>weight := Some (JNum d)\<rparr>)
     = Some (repaired_weight d s)"
proof (cases "positive_weight s")
  case True
  then obtain w r where "weight s = Some w" "num_of w = Some r"
    by (auto simp: positive_weight_def split: option.splits)
  then show ?thesis
    using True num_of_py_number [of w r] by (auto simp: repaired_weight_def weight_number_def)
next
  case False
  then show ?thesis by (simp add: repaired_weight_def weight_number_def)
qed

lemma repaired_weight_pos: "0 < d \<Longrightarrow> 0 < value_of (repaired_weight d s)"
proof (cases "positive_weight s")
  case True
  then obtain w r where w: "weight s = Some w" "num_of w = Some r" "0 < r"
    by (auto simp: positive_weight_def split: option.splits)
  from num_of_py_number [OF w(2)] obtain x where "py_number w = Some x" "value_of x = r" by blast
  with w True show ?thesis by (simp add: repaired_weight_def weight_number_def)
next
  case False
  assume "0 < d"
  with False show ?thesis by (simp add: repaired_weight_def)
qed

lemma repaired_weight_positive:
  "positive_weight s \<Longrightarrow> weight_number s = Some (repaired_weight d s)"
  using weight_number_repaired [of s d] by simp

lemma those_map_Some: "those (map Some xs) = Some xs"
  by (induction xs) auto

lemma sum_list_pos_rat: "xs \<noteq> [] \<Longrightarrow> (\<forall>x\<in>set xs. (0::rat) < x) \<Longrightarrow> 0 < sum_list xs"
  by (induction xs) (auto simp: add_pos_nonneg sum_list_nonneg less_imp_le)

lemma in_order_all:
  "(\<forall>w\<in>set ws. \<exists>x. f w = Inr x \<and> P w x) \<Longrightarrow>
   \<exists>qs. in_order (map f ws) = Inr qs \<and> list_all2 P ws qs"
proof (induction ws)
  case Nil
  then show ?case by simp
next
  case (Cons w ws)
  then obtain x where x: "f w = Inr x" "P w x" by auto
  from Cons obtain qs where qs: "in_order (map f ws) = Inr qs" "list_all2 P ws qs" by auto
  from x qs show ?case by (intro exI [of _ "x # qs"]) simp
qed

lemma sum_between:
  "list_all2 (\<lambda>w x. lo * g w \<le> x \<and> x \<le> hi * g w) ws qs \<Longrightarrow>
   lo * sum_list (map g ws) \<le> sum_list qs \<and> sum_list qs \<le> hi * sum_list (map g ws :: rat list)"
  by (induction ws qs rule: list_all2_induct) (auto simp: algebra_simps)

lemma weight_map2:
  "length secs = length qs \<Longrightarrow>
   map weight (map2 (\<lambda>s w. s\<lparr>weight := Some (JNum w)\<rparr>) secs qs) = map (\<lambda>x. Some (JNum x)) qs"
  by (induction secs qs rule: list_induct2) auto

lemma abs_rel_bounds:
  fixes x r eps :: rat
  assumes "\<bar>x - r\<bar> \<le> eps * r"
  shows "(1 - eps) * r \<le> x \<and> x \<le> (1 + eps) * r"
  using assms by (auto simp: abs_le_iff algebra_simps)

lemma normalised_sum_close:
  fixes S W eps t :: rat
  assumes S: "0 < S" and W: "\<bar>W - S\<bar> \<le> eps * S" and eps: "0 \<le> eps" "eps \<le> 1 / 10 ^ 7"
    and lo: "(1 - eps) * (S / W) \<le> t" and hi: "t \<le> (1 + eps) * (S / W)"
  shows "0 < W" and "\<bar>t - 1\<bar> \<le> 1 / 10 ^ 6"
proof -
  from abs_rel_bounds [OF W] have Wb: "(1 - eps) * S \<le> W" "W \<le> (1 + eps) * S" by auto
  from eps have e1: "0 < 1 - eps" by simp
  with S have "0 < (1 - eps) * S" by simp
  with Wb show Wpos: "0 < W" by linarith
  define u where "u = S / W"
  have upos: "0 < u" using S Wpos by (simp add: u_def)
  have S_eq: "S = u * W" using Wpos by (simp add: u_def)
  have u_hi: "u * (1 - eps) \<le> 1"
  proof -
    have "u * ((1 - eps) * S) \<le> u * W" using Wb(1) upos by (simp add: mult_left_mono)
    also have "\<dots> = S" using S_eq by simp
    finally have "(u * (1 - eps)) * S \<le> 1 * S" by (simp add: algebra_simps)
    then show ?thesis using S by (simp only: mult_le_cancel_right_pos)
  qed
  have u_lo: "1 \<le> u * (1 + eps)"
  proof -
    have "S = u * W" by (rule S_eq)
    also have "\<dots> \<le> u * ((1 + eps) * S)" using Wb(2) upos by (simp add: mult_left_mono)
    finally have "1 * S \<le> (u * (1 + eps)) * S" by (simp add: algebra_simps)
    then show ?thesis using S by (simp only: mult_le_cancel_right_pos)
  qed
  have t_hi: "t \<le> 1 + 1 / 10 ^ 6"
  proof -
    have hi': "t \<le> (1 + eps) * u" using hi by (simp add: u_def)
    have "t * (1 - eps) \<le> ((1 + eps) * u) * (1 - eps)"
      by (rule mult_right_mono [OF hi']) (use e1 in simp)
    also have "\<dots> = (1 + eps) * (u * (1 - eps))" by (simp add: algebra_simps)
    also have "\<dots> \<le> (1 + eps) * 1" using u_hi eps by (intro mult_left_mono) auto
    also have "\<dots> \<le> 1 + 1 / 10 ^ 6 - (1 + 1 / 10 ^ 6) * eps" using eps by simp
    also have "\<dots> = (1 + 1 / 10 ^ 6) * (1 - eps)" by (simp add: algebra_simps)
    finally show ?thesis using e1 by (simp only: mult_le_cancel_right_pos)
  qed
  have t_lo: "1 - 1 / 10 ^ 6 \<le> t"
  proof -
    have "(1 - 1 / 10 ^ 6) * (1 + eps) = 1 - 1 / 10 ^ 6 + (1 - 1 / 10 ^ 6) * eps"
      by (simp add: algebra_simps)
    also have "\<dots> \<le> (1 - eps) * 1" using eps by simp
    also have "\<dots> \<le> (1 - eps) * (u * (1 + eps))" using u_lo e1 by (intro mult_left_mono) auto
    also have "\<dots> = ((1 - eps) * u) * (1 + eps)" by (simp add: algebra_simps)
    also have "\<dots> \<le> t * (1 + eps)"
    proof -
      have lo': "(1 - eps) * u \<le> t" using lo by (simp add: u_def)
      show ?thesis by (rule mult_right_mono [OF lo']) (use eps in simp)
    qed
    finally show ?thesis using eps by (simp only: mult_le_cancel_right_pos)
  qed
  show "\<bar>t - 1\<bar> \<le> 1 / 10 ^ 6" unfolding abs_le_iff using t_hi t_lo by simp
qed


lemma ratio_kept:
  fixes qi qj vi vj W eps :: rat
  assumes W: "0 < W" and v: "0 < vi" "0 < vj" and eps: "0 \<le> eps" "eps \<le> 1 / 10 ^ 7"
    and qi: "qi \<le> (1 + eps) * (vi / W)" and qj: "(1 - eps) * (vj / W) \<le> qj"
  shows "qi * vj * (1 - eps) \<le> qj * vi * (1 + eps)"
proof -
  from eps have e1: "0 \<le> 1 - eps" by simp
  have "qi * (vj * (1 - eps)) \<le> ((1 + eps) * (vi / W)) * (vj * (1 - eps))"
    by (rule mult_right_mono [OF qi]) (use v e1 in simp)
  also have "\<dots> = ((1 - eps) * (vj / W)) * (vi * (1 + eps))" by (simp add: algebra_simps)
  also have "\<dots> \<le> qj * (vi * (1 + eps))"
    by (rule mult_right_mono [OF qj]) (use v eps in simp)
  finally show ?thesis by (simp add: algebra_simps)
qed

text \<open>
  C3. Let a questionnaire have at least one section. The repair first gives every section
  whose weight is missing, not a number or not positive the float \<open>d\<close> that
  \<open>1.0 / section_count\<close> evaluates to; the weights \<open>ws\<close> that result are those of the
  document when all of them are positive numbers. Let \<open>sum\<close> return the finite number
  \<open>W\<close> on \<open>ws\<close>, and let \<open>sum\<close> and the divisions by \<open>W\<close> be accurate up to a relative
  error \<open>eps\<close> of at most 1e-7 (no overflow, no underflow). Then the repair returns the
  questionnaire with the same sections in the same order and new weights only. If the
  computed total \<open>W\<close> lies in the band \<open>0.99 <= W <= 1.01\<close>, the weights are \<open>ws\<close>,
  not normalised. Otherwise the new weights are floats that sum to 1 within 1e-6, and the
  ratio of any two of them is the ratio of the two weights they come from, up to the
  factor \<open>(1 + eps) / (1 - eps)\<close> of the rounding.
\<close>

theorem fix_questionnaire_weights_normalises:
  assumes secs: "sections q = Some secs" and ne: "secs \<noteq> []"
    and share: "list_all positive_weight secs
        \<or> py_div ar (PFloat 1) (Finite (PInt (int (length secs)))) = Inr d"
    and d: "0 < d"
    and ws: "ws = map (repaired_weight d) secs"
    and total: "py_sum ar ws = Inr (Finite W)"
    and sum_acc: "\<bar>value_of W - sum_list (map value_of ws)\<bar> \<le> eps * sum_list (map value_of ws)"
    and div_acc: "\<forall>w\<in>set ws. \<exists>x. py_div ar w (Finite W) = Inr x
        \<and> \<bar>x - value_of w / value_of W\<bar> \<le> eps * (value_of w / value_of W)"
    and eps: "0 \<le> eps" "eps \<le> 1 / 10 ^ 7"
  shows "\<exists>secs'. fix_questionnaire_weights ar q = Some (q\<lparr>sections := Some secs'\<rparr>)
          \<and> length secs' = length secs
          \<and> ((\<forall>s\<in>set secs. positive_weight s) \<longrightarrow> map weight_number secs = map Some ws)
          \<and> (if close_to_one (Finite W)
              then map weight_number secs' = map Some ws
              else (\<exists>qs. map weight secs' = map (\<lambda>x. Some (JNum x)) qs
                     \<and> length qs = length ws
                     \<and> \<bar>sum_list qs - 1\<bar> \<le> 1 / 10 ^ 6
                     \<and> (\<forall>i<length ws. \<forall>j<length ws.
                           qs ! i * value_of (ws ! j) * (1 - eps)
                             \<le> qs ! j * value_of (ws ! i) * (1 + eps))))"
proof -
  let ?secs1 = "map (\<lambda>s. if positive_weight s then s else s\<lparr>weight := Some (JNum d)\<rparr>) secs"
  let ?S = "sum_list (map value_of ws)"
  let ?W = "value_of W"
  have eq1: "equal_weights ar secs = Inr ?secs1"
  proof (cases "list_all positive_weight secs")
    case True
    then have "?secs1 = secs" by (simp add: list_all_iff map_idI)
    with True show ?thesis by (simp add: equal_weights_def)
  next
    case False
    with share show ?thesis by (simp add: equal_weights_def)
  qed
  have wn: "map weight_number ?secs1 = map Some ws"
    by (simp add: ws comp_def weight_number_repaired)
  then have those: "those (map weight_number ?secs1) = Some ws"
    by (simp only: those_map_Some)
  have orig: "(\<forall>s\<in>set secs. positive_weight s) \<longrightarrow> map weight_number secs = map Some ws"
    by (auto simp: ws repaired_weight_positive)
  have vpos: "\<forall>w\<in>set ws. 0 < value_of w"
    using d by (auto simp: ws repaired_weight_pos)
  have wsne: "ws \<noteq> []" using ne by (simp add: ws)
  have Spos: "0 < ?S"
    using wsne vpos by (intro sum_list_pos_rat) auto
  show ?thesis
  proof (cases "close_to_one (Finite W)")
    case True
    have fq: "fix_questionnaire_weights ar q = Some (q\<lparr>sections := Some ?secs1\<rparr>)"
      using secs ne eq1 those total True by (simp add: fix_questionnaire_weights_def)
    show ?thesis
    proof (intro exI [of _ ?secs1] conjI)
      show "fix_questionnaire_weights ar q = Some (q\<lparr>sections := Some ?secs1\<rparr>)" by (rule fq)
      show "length ?secs1 = length secs" by simp
      show "(\<forall>s\<in>set secs. positive_weight s) \<longrightarrow> map weight_number secs = map Some ws"
        by (rule orig)
      show "if close_to_one (Finite W)
              then map weight_number ?secs1 = map Some ws
              else (\<exists>qs. map weight ?secs1 = map (\<lambda>x. Some (JNum x)) qs
                     \<and> length qs = length ws
                     \<and> \<bar>sum_list qs - 1\<bar> \<le> 1 / 10 ^ 6
                     \<and> (\<forall>i<length ws. \<forall>j<length ws.
                           qs ! i * value_of (ws ! j) * (1 - eps)
                             \<le> qs ! j * value_of (ws ! i) * (1 + eps)))"
        by (subst if_P [OF True]) (rule wn)
    qed
  next
    case False
    let ?P = "\<lambda>w x. (1 - eps) * (value_of w / ?W) \<le> x \<and> x \<le> (1 + eps) * (value_of w / ?W)"
    from div_acc have "\<forall>w\<in>set ws. \<exists>x. py_div ar w (Finite W) = Inr x \<and> ?P w x"
      using abs_rel_bounds by blast
    from in_order_all [OF this] obtain qs where
      qs: "in_order (map (\<lambda>w. py_div ar w (Finite W)) ws) = Inr qs" and all2: "list_all2 ?P ws qs"
      by blast
    from all2 have len: "length qs = length ws" by (simp add: list_all2_lengthD)
    let ?secs2 = "map2 (\<lambda>s w. s\<lparr>weight := Some (JNum w)\<rparr>) ?secs1 qs"
    have fq: "fix_questionnaire_weights ar q = Some (q\<lparr>sections := Some ?secs2\<rparr>)"
      using secs ne eq1 those total False qs by (simp add: fix_questionnaire_weights_def)
    have len1: "length ?secs1 = length qs" using len by (simp add: ws)
    have w2: "map weight ?secs2 = map (\<lambda>x. Some (JNum x)) qs"
      by (rule weight_map2 [OF len1])
    from sum_between [OF all2]
    have sb: "(1 - eps) * sum_list (map (\<lambda>w. value_of w / ?W) ws) \<le> sum_list qs"
      "sum_list qs \<le> (1 + eps) * sum_list (map (\<lambda>w. value_of w / ?W) ws)"
      by auto
    have sd: "sum_list (map (\<lambda>w. value_of w / ?W) ws) = ?S / ?W"
      by (induction ws) (auto simp: add_divide_distrib)
    from sb have lo: "(1 - eps) * (?S / ?W) \<le> sum_list qs" and hi: "sum_list qs \<le> (1 + eps) * (?S / ?W)"
      by (simp_all only: sd)
    from normalised_sum_close [OF Spos sum_acc eps lo hi]
    have Wpos: "0 < ?W" and close: "\<bar>sum_list qs - 1\<bar> \<le> 1 / 10 ^ 6" by auto
    have ratio: "\<forall>i<length ws. \<forall>j<length ws.
         qs ! i * value_of (ws ! j) * (1 - eps) \<le> qs ! j * value_of (ws ! i) * (1 + eps)"
    proof (intro allI impI)
      fix i j assume i: "i < length ws" and j: "j < length ws"
      from list_all2_nthD [OF all2 i] have qi: "qs ! i \<le> (1 + eps) * (value_of (ws ! i) / ?W)" by simp
      from list_all2_nthD [OF all2 j] have qj: "(1 - eps) * (value_of (ws ! j) / ?W) \<le> qs ! j" by simp
      from vpos i j have v: "0 < value_of (ws ! i)" "0 < value_of (ws ! j)" by auto
      show "qs ! i * value_of (ws ! j) * (1 - eps) \<le> qs ! j * value_of (ws ! i) * (1 + eps)"
        by (rule ratio_kept [OF Wpos v eps qi qj])
    qed
    show ?thesis
    proof (intro exI [of _ ?secs2] conjI)
      show "fix_questionnaire_weights ar q = Some (q\<lparr>sections := Some ?secs2\<rparr>)" by (rule fq)
      show "length ?secs2 = length secs" using len by (simp add: ws)
      show "(\<forall>s\<in>set secs. positive_weight s) \<longrightarrow> map weight_number secs = map Some ws"
        by (rule orig)
      show "if close_to_one (Finite W)
              then map weight_number ?secs2 = map Some ws
              else (\<exists>qs. map weight ?secs2 = map (\<lambda>x. Some (JNum x)) qs
                     \<and> length qs = length ws
                     \<and> \<bar>sum_list qs - 1\<bar> \<le> 1 / 10 ^ 6
                     \<and> (\<forall>i<length ws. \<forall>j<length ws.
                           qs ! i * value_of (ws ! j) * (1 - eps)
                             \<le> qs ! j * value_of (ws ! i) * (1 + eps)))"
        by (subst if_not_P [OF False]) (intro exI [of _ qs] conjI w2 len close ratio)
    qed
  qed
qed

text \<open>
  With binary64 floats: six sections of weight 1 have the total 6 and each get the float
  nearest to 1/6; the exact sum of the six new weights is not 1, and is within 1e-6 of 1.
\<close>

theorem fix_questionnaire_weights_normalises_witness:
  "fix_questionnaire_weights binary64 \<lparr>sections = Some six_sections, answer_points = None\<rparr>
     = Some \<lparr>sections = Some (map (\<lambda>s. s\<lparr>weight := Some (JNum one_sixth)\<rparr>) six_sections),
             answer_points = None\<rparr>
   \<and> 6 * one_sixth \<noteq> 1
   \<and> \<bar>6 * one_sixth - 1\<bar> \<le> 1 / 10 ^ 6"
proof -
  let ?q = "\<lparr>sections = Some six_sections, answer_points = None\<rparr>"
  let ?ws = "[PFloat 1, PFloat 1, PFloat 1, PFloat 1, PFloat 1, PFloat 1]"
  note ev = six_sections_def plain_section_def positive_weight_def weight_number_def
  have h1: "sections ?q = Some six_sections" by simp
  have h2: "six_sections \<noteq> []" by (simp add: six_sections_def)
  have h3: "list_all positive_weight six_sections
        \<or> py_div binary64 (PFloat 1) (Finite (PInt (int (length six_sections)))) = Inr 1"
    by (simp add: ev)
  have h4: "(0::rat) < 1" by simp
  have h5: "?ws = map (repaired_weight 1) six_sections"
    by (simp add: ev repaired_weight_def)
  have h7: "\<bar>value_of (PFloat 6) - sum_list (map value_of ?ws)\<bar>
      \<le> (1 / 2 ^ 53) * sum_list (map value_of ?ws)"
    by simp
  have h8: "\<forall>w\<in>set ?ws. \<exists>x. py_div binary64 w (Finite (PFloat 6)) = Inr x
        \<and> \<bar>x - value_of w / value_of (PFloat 6)\<bar> \<le> (1 / 2 ^ 53) * (value_of w / value_of (PFloat 6))"
  proof
    fix w assume "w \<in> set ?ws"
    then have w: "w = PFloat 1" by simp
    have "\<bar>one_sixth - 1 / 6\<bar> \<le> (1 / 2 ^ 53) * (1 / 6)" by (simp add: one_sixth_def)
    with div_six show "\<exists>x. py_div binary64 w (Finite (PFloat 6)) = Inr x
        \<and> \<bar>x - value_of w / value_of (PFloat 6)\<bar> \<le> (1 / 2 ^ 53) * (value_of w / value_of (PFloat 6))"
      unfolding w by (intro exI [of _ one_sixth]) simp
  qed
  have h9: "(0::rat) \<le> 1 / 2 ^ 53" "(1::rat) / 2 ^ 53 \<le> 1 / 10 ^ 7" by simp_all
  have nb: "\<not> close_to_one (Finite (PFloat 6))" by (simp add: close_to_one_def float_1_01_def)
  from fix_questionnaire_weights_normalises [OF h1 h2 h3 h4 h5 sum_six_ones h7 h8 h9] nb
  obtain secs' qs where fq: "fix_questionnaire_weights binary64 ?q = Some (?q\<lparr>sections := Some secs'\<rparr>)"
    and w: "map weight secs' = map (\<lambda>x. Some (JNum x)) qs"
    and close: "\<bar>sum_list qs - 1\<bar> \<le> 1 / 10 ^ 6"
    by auto
  have ev2: "fix_questionnaire_weights binary64 ?q
     = Some \<lparr>sections = Some (map (\<lambda>s. s\<lparr>weight := Some (JNum one_sixth)\<rparr>) six_sections),
             answer_points = None\<rparr>"
    by (simp add: fix_questionnaire_weights_def equal_weights_def ev sum_six_ones nb div_six)
  from fq ev2 have "secs' = map (\<lambda>s. s\<lparr>weight := Some (JNum one_sixth)\<rparr>) six_sections" by simp
  with w have "map (\<lambda>x. Some (JNum x)) qs = map (\<lambda>x. Some (JNum x)) (replicate 6 one_sixth)"
    by (simp add: six_sections_def numeral_eq_Suc)
  moreover have "inj (\<lambda>x. Some (JNum x))" by (simp add: inj_on_def)
  ultimately have "qs = replicate 6 one_sixth" by (simp only: inj_map_eq_map)
  with close have "\<bar>6 * one_sixth - 1\<bar> \<le> 1 / 10 ^ 6" by (simp add: numeral_eq_Suc)
  moreover have "6 * one_sixth \<noteq> 1" by (simp add: one_sixth_def)
  ultimately show ?thesis using ev2 by simp
qed

text \<open>
  C3 as stated fails inside the band: the float weights 0.5 and 0.498 are positive, their
  sum is positive and not 1.0, and the repair returns them as they are; their sum is
  farther than 1e-6 from 1.
\<close>

theorem fix_questionnaire_weights_band_counterexample:
  "fix_questionnaire_weights binary64
       \<lparr>sections = Some [plain_section ''Consent'' (1 / 2) 1,
                         plain_section ''Security'' (2242792614430507 / 4503599627370496) 1],
        answer_points = None\<rparr>
     = Some \<lparr>sections = Some [plain_section ''Consent'' (1 / 2) 1,
                         plain_section ''Security'' (2242792614430507 / 4503599627370496) 1],
        answer_points = None\<rparr>
   \<and> (0::rat) < 1 / 2 + 2242792614430507 / 4503599627370496
   \<and> (1 / 2 + 2242792614430507 / 4503599627370496 :: rat) \<noteq> 1
   \<and> \<not> \<bar>(1 / 2 + 2242792614430507 / 4503599627370496) - 1\<bar> \<le> (1 / 10 ^ 6 :: rat)"
  by (simp add: fix_questionnaire_weights_def equal_weights_def plain_section_def positive_weight_def
      weight_number_def binary64_def add_half_1 add_half_2 close_to_one_def float_0_99_def
      float_1_01_def)

end
